theory Spec2Isabelle
  imports Complex_Main
begin

section \<open>Python values of the notebook\<close>

text \<open>
  The program is the notebook \<^verbatim>\<open>notebooks/deploy-llama3.ipynb\<close>: eleven code cells that
  run top to bottom (a twelfth is empty; the imports are taken to succeed). Its data are Python strings, numbers, lists and dictionaries; every
  remote effect is a call into the SageMaker SDK, boto3, the shell or the file system.

  A Python \<^verbatim>\<open>str\<close> is a sequence of Unicode code points, so it is a list of naturals here;
  \<open>str\<close> turns an ASCII literal of the source into that form. A Python \<^verbatim>\<open>float\<close> is an
  IEEE-754 binary64 value: \<open>Finite s m e\<close> is the number \<open>m * 2 ^ e\<close>, negative when \<open>s\<close>
  holds (a double \<open>x\<close> is \<open>m / 2 ^ k\<close> for the pair \<^verbatim>\<open>x.as_integer_ratio()\<close> gives). A dictionary
  is the list of its items in insertion order (keys of every dictionary of the notebook
  are strings).
\<close>

type_synonym codepoint = nat
type_synonym pystr = "codepoint list"
datatype pyfloat = Finite bool nat int | Infinity bool | NaN

definition str :: "string \<Rightarrow> pystr" where
  "str s = map of_char s"

datatype pyval =
    PNone
  | PBool bool
  | PInt int
  | PFloat pyfloat
  | PStr pystr
  | PList "pyval list"
  | PDict "(pystr \<times> pyval) list"

type_synonym pydict = "(pystr \<times> pyval) list"

text \<open>
  Exceptions, by class. \<open>ValueError\<close> stands for an instance of \<^verbatim>\<open>ValueError\<close> or of one of
  its subclasses (what \<^verbatim>\<open>except ValueError\<close> catches); \<open>OtherError\<close> is an exception of
  any class outside the ones listed (botocore's \<^verbatim>\<open>ClientError\<close>, \<^verbatim>\<open>FileNotFoundError\<close>, ...),
  named by its class.
\<close>

datatype py_error =
    ValueError pystr
  | AssertionError pystr
  | KeyError pyval
  | IndexError
  | TypeError
  | AttributeError
  | OverflowError
  | OtherError pystr

definition and_then :: "py_error + 'a \<Rightarrow> ('a \<Rightarrow> py_error + 'b) \<Rightarrow> py_error + 'b" where
  "and_then r f = (case r of Inl e \<Rightarrow> Inl e | Inr x \<Rightarrow> f x)"

subsection \<open>Subscripts, \<^verbatim>\<open>str.strip\<close>, dictionary displays\<close>

text \<open>\<^verbatim>\<open>v[k]\<close> for a string key \<open>k\<close>: a dictionary looks the key up, everything else
  raises \<^verbatim>\<open>TypeError\<close>.\<close>

fun getitem_str :: "pyval \<Rightarrow> pystr \<Rightarrow> py_error + pyval" where
  "getitem_str (PDict d) k =
     (case map_of d k of Some v \<Rightarrow> Inr v | None \<Rightarrow> Inl (KeyError (PStr k)))"
| "getitem_str v k = Inl TypeError"

text \<open>\<^verbatim>\<open>v[i]\<close> for an integer \<open>i\<close>: lists and strings index (negative indices count from
  the end), a dictionary with string keys has no such key, the rest is not subscriptable.\<close>

definition list_index :: "nat \<Rightarrow> int \<Rightarrow> nat option" where
  "list_index len i =
     (if 0 \<le> i \<and> i < int len then Some (nat i)
      else if i < 0 \<and> - int len \<le> i then Some (nat (int len + i))
      else None)"

fun getitem_int :: "pyval \<Rightarrow> int \<Rightarrow> py_error + pyval" where
  "getitem_int (PList xs) i =
     (case list_index (length xs) i of
        Some j \<Rightarrow> Inr (xs ! j)
      | None \<Rightarrow> Inl IndexError)"
| "getitem_int (PStr s) i =
     (case list_index (length s) i of
        Some j \<Rightarrow> Inr (PStr [s ! j])
      | None \<Rightarrow> Inl IndexError)"
| "getitem_int (PDict d) i = Inl (KeyError (PInt i))"
| "getitem_int v i = Inl TypeError"

text \<open>The code points \<^verbatim>\<open>str.strip()\<close> removes: those for which \<^verbatim>\<open>str.isspace\<close> holds.\<close>

definition py_isspace :: "codepoint \<Rightarrow> bool" where
  "py_isspace c =
     ((9 \<le> c \<and> c \<le> 13) \<or> (28 \<le> c \<and> c \<le> 32) \<or> c = 133 \<or> c = 160 \<or> c = 5760 \<or>
      (8192 \<le> c \<and> c \<le> 8202) \<or> c = 8232 \<or> c = 8233 \<or> c = 8239 \<or> c = 8287 \<or>
      c = 12288)"

definition py_strip :: "pystr \<Rightarrow> pystr" where
  "py_strip s = rev (dropWhile py_isspace (rev (dropWhile py_isspace s)))"

text \<open>\<^verbatim>\<open>v.strip()\<close>: only a string has the method.\<close>

fun call_strip :: "pyval \<Rightarrow> py_error + pyval" where
  "call_strip (PStr s) = Inr (PStr (py_strip s))"
| "call_strip v = Inl AttributeError"

text \<open>\<^verbatim>\<open>d[k] = v\<close> keeps the position of a key that is already there; a display
  \<^verbatim>\<open>{..., **e}\<close> stores the items of \<open>e\<close> one after the other.\<close>

fun dict_set :: "pydict \<Rightarrow> pystr \<Rightarrow> pyval \<Rightarrow> pydict" where
  "dict_set [] k v = [(k, v)]"
| "dict_set ((k', v') # d) k v =
     (if k' = k then (k, v) # d else (k', v') # dict_set d k v)"

definition dict_update :: "pydict \<Rightarrow> pydict \<Rightarrow> pydict" where
  "dict_update d e = foldl (\<lambda>a (k, v). dict_set a k v) d e"

subsection \<open>Formatting\<close>

text \<open>
  Float arithmetic and the text of a float belong to the interpreter. They enter as the
  fields of a \<open>runtime\<close>, together with \<^verbatim>\<open>repr\<close> of the values whose \<^verbatim>\<open>str\<close> is their
  \<^verbatim>\<open>repr\<close> (floats, lists, dictionaries), so that what does not depend on them is proved
  for every runtime; \<open>cpython\<close> below is the runtime with binary64 arithmetic.
\<close>

record runtime =
  float_of_int :: "int \<Rightarrow> py_error + pyfloat"
  float_mul :: "pyfloat \<Rightarrow> pyfloat \<Rightarrow> pyfloat"
  float_format_2f :: "pyfloat \<Rightarrow> pystr"
  repr_other :: "pyval \<Rightarrow> pystr"

fun dec_nat :: "nat \<Rightarrow> pystr" where
  "dec_nat n = (if n < 10 then [48 + n] else dec_nat (n div 10) @ [48 + n mod 10])"

declare dec_nat.simps [simp del]

definition str_of_int :: "int \<Rightarrow> pystr" where
  "str_of_int i = (if i < 0 then 45 # dec_nat (nat (- i)) else dec_nat (nat i))"

text \<open>\<^verbatim>\<open>{v}\<close> in an f-string, and \<^verbatim>\<open>print(v)\<close>: \<^verbatim>\<open>str(v)\<close>.\<close>

fun py_str :: "runtime \<Rightarrow> pyval \<Rightarrow> pystr" where
  "py_str rt (PStr s) = s"
| "py_str rt (PInt i) = str_of_int i"
| "py_str rt (PBool b) = (if b then str ''True'' else str ''False'')"
| "py_str rt PNone = str ''None''"
| "py_str rt v = repr_other rt v"

text \<open>\<^verbatim>\<open>v * n\<close> for an integer literal \<open>n\<close>: integers and booleans multiply exactly, a
  float multiplies by the float of \<open>n\<close>, strings and lists repeat.\<close>

fun py_mul_int :: "runtime \<Rightarrow> pyval \<Rightarrow> int \<Rightarrow> py_error + pyval" where
  "py_mul_int rt (PInt i) n = Inr (PInt (i * n))"
| "py_mul_int rt (PBool b) n = Inr (PInt ((if b then 1 else 0) * n))"
| "py_mul_int rt (PFloat f) n =
     and_then (float_of_int rt n) (\<lambda>g. Inr (PFloat (float_mul rt f g)))"
| "py_mul_int rt (PStr s) n = Inr (PStr (concat (replicate (nat n) s)))"
| "py_mul_int rt (PList xs) n = Inr (PList (concat (replicate (nat n) xs)))"
| "py_mul_int rt v n = Inl TypeError"

text \<open>\<^verbatim>\<open>{v:.2f}\<close>: a float is formatted, an integer or boolean is converted to a float
  first, a string refuses the format code, the other types refuse any format string.\<close>

fun py_format_2f :: "runtime \<Rightarrow> pyval \<Rightarrow> py_error + pystr" where
  "py_format_2f rt (PFloat f) = Inr (float_format_2f rt f)"
| "py_format_2f rt (PInt i) =
     and_then (float_of_int rt i) (\<lambda>g. Inr (float_format_2f rt g))"
| "py_format_2f rt (PBool b) =
     and_then (float_of_int rt (if b then 1 else 0)) (\<lambda>g. Inr (float_format_2f rt g))"
| "py_format_2f rt (PStr s) =
     Inl (ValueError (str ''Unknown format code 'f' for object of type 'str'' @ [39]))"
| "py_format_2f rt v = Inl TypeError"

subsection \<open>Binary64 arithmetic and \<^verbatim>\<open>'.2f'\<close>\<close>

text \<open>
  CPython's floats: a product is the exact product rounded to the nearest double, ties
  to the even mantissa; an integer converts to the nearest double and
  \<^verbatim>\<open>OverflowError\<close> is raised when that is beyond the largest one; \<^verbatim>\<open>'.2f'\<close> prints the
  two-decimal numeral nearest to the exact value of the double, ties to the even last
  digit, a minus sign for every negative double (also one that prints as zero).

  \<open>bitlen n\<close> is the number of binary digits of \<open>n\<close>; \<open>round_half_even n d\<close> is the integer
  nearest to \<open>n / d\<close>. \<open>round_to_double s n e\<close> rounds \<open>n * 2 ^ e\<close> to 53 significant bits,
  fewer below the smallest normal number (the last place is never below \<open>2 ^ - 1074\<close>),
  and to infinity from \<open>2 ^ 1024 - 2 ^ 970\<close> on.
\<close>

fun bitlen :: "nat \<Rightarrow> nat" where
  "bitlen n = (if n = 0 then 0 else Suc (bitlen (n div 2)))"

declare bitlen.simps [simp del]

definition round_half_even :: "nat \<Rightarrow> nat \<Rightarrow> nat" where
  "round_half_even n d =
     (if 2 * (n mod d) < d then n div d
      else if d < 2 * (n mod d) then n div d + 1
      else if even (n div d) then n div d
      else n div d + 1)"

definition round_to_double :: "bool \<Rightarrow> nat \<Rightarrow> int \<Rightarrow> pyfloat" where
  "round_to_double s n e =
     (let q = max (int (bitlen n) - 1 + e) (- 1022) - 52;
          m = (if q \<le> e then n * 2 ^ nat (e - q) else round_half_even n (2 ^ nat (q - e)))
      in if 971 < q \<or> (q = 971 \<and> m = 2 ^ 53) then Infinity s else Finite s m q)"

fun ieee_mul :: "pyfloat \<Rightarrow> pyfloat \<Rightarrow> pyfloat" where
  "ieee_mul (Finite s1 m1 e1) (Finite s2 m2 e2) =
     round_to_double (s1 \<noteq> s2) (m1 * m2) (e1 + e2)"
| "ieee_mul (Finite s1 m1 e1) (Infinity s2) = (if m1 = 0 then NaN else Infinity (s1 \<noteq> s2))"
| "ieee_mul (Infinity s1) (Finite s2 m2 e2) = (if m2 = 0 then NaN else Infinity (s1 \<noteq> s2))"
| "ieee_mul (Infinity s1) (Infinity s2) = Infinity (s1 \<noteq> s2)"
| "ieee_mul x y = NaN"

definition ieee_of_int :: "int \<Rightarrow> py_error + pyfloat" where
  "ieee_of_int i =
     (case round_to_double (i < 0) (nat \<bar>i\<bar>) 0 of
        Infinity s \<Rightarrow> Inl OverflowError
      | x \<Rightarrow> Inr x)"

text \<open>\<open>two_decimals s k\<close> is the numeral of \<open>k / 100\<close> with two decimals, signed by \<open>s\<close>.\<close>

definition two_decimals :: "bool \<Rightarrow> nat \<Rightarrow> pystr" where
  "two_decimals s k =
     (if s then str ''-'' else []) @ dec_nat (k div 100) @ str ''.'' @
     [48 + k mod 100 div 10, 48 + k mod 10]"

fun ieee_format_2f :: "pyfloat \<Rightarrow> pystr" where
  "ieee_format_2f (Finite s m e) =
     two_decimals s
       (if 0 \<le> e then 100 * m * 2 ^ nat e else round_half_even (100 * m) (2 ^ nat (- e)))"
| "ieee_format_2f (Infinity s) = (if s then str ''-inf'' else str ''inf'')"
| "ieee_format_2f NaN = str ''nan''"

definition cpython :: "(pyval \<Rightarrow> pystr) \<Rightarrow> runtime" where
  "cpython repr = \<lparr> float_of_int = ieee_of_int, float_mul = ieee_mul,
                     float_format_2f = ieee_format_2f, repr_other = repr \<rparr>"

text \<open>The absolute value of a finite float, as a rational number.\<close>

fun float_magnitude :: "pyfloat \<Rightarrow> rat" where
  "float_magnitude (Finite s m e) = of_nat m * 2 powi e"
| "float_magnitude x = 0"

section \<open>Effects: the calls the notebook makes, in order\<close>

text \<open>
  Every call that leaves the notebook is recorded as an event; a cell is a function from
  the trace so far to its outcome (an exception or a value) and the trace after it.
  What the outside answers is the \<open>world\<close>: one field per call of the source.
\<close>

datatype event =
    Shell pystr
  | NewSession "pyval option"
  | DefaultBucket
  | GetExecutionRole
  | Boto3Client pystr
  | IamGetRole pystr
  | NewHuggingFaceModel pyval pystr pydict
  | Deploy int pystr int
  | Predict pyval
  | GlobCall pystr
  | OpenFile pystr
  | Print pystr
  | DeleteModel
  | DeleteEndpoint

record world =
  sagemaker_Session :: "pyval option \<Rightarrow> py_error + pystr"
  sess_default_bucket :: "py_error + pyval"
  sagemaker_get_execution_role :: "py_error + pyval"
  boto3_client :: "pystr \<Rightarrow> py_error + unit"
  iam_get_role :: "pystr \<Rightarrow> py_error + pyval"
  HuggingFaceModel :: "pyval \<Rightarrow> pystr \<Rightarrow> pydict \<Rightarrow> py_error + unit"
  llm_model_deploy :: "int \<Rightarrow> pystr \<Rightarrow> int \<Rightarrow> py_error + pystr"
  llm_predict :: "pyval \<Rightarrow> py_error + pyval"
  glob_glob :: "pystr \<Rightarrow> pystr list"
  open_json_load :: "pystr \<Rightarrow> py_error + pyval"
  llm_delete_model :: "py_error + unit"
  llm_delete_endpoint :: "py_error + unit"

type_synonym trace = "event list"
type_synonym 'a io = "trace \<Rightarrow> (py_error + 'a) \<times> trace"

definition io_ret :: "'a \<Rightarrow> 'a io" where
  "io_ret x tr = (Inr x, tr)"

definition io_raise :: "py_error \<Rightarrow> 'a io" where
  "io_raise e tr = (Inl e, tr)"

definition io_lift :: "py_error + 'a \<Rightarrow> 'a io" where
  "io_lift r tr = (r, tr)"

definition io_bind :: "'a io \<Rightarrow> ('a \<Rightarrow> 'b io) \<Rightarrow> 'b io" where
  "io_bind m f tr = (case m tr of (Inl e, tr') \<Rightarrow> (Inl e, tr') | (Inr x, tr') \<Rightarrow> f x tr')"

text \<open>A call is recorded, then answers or raises.\<close>

definition call :: "event \<Rightarrow> py_error + 'a \<Rightarrow> 'a io" where
  "call ev r tr = (r, tr @ [ev])"

definition py_print :: "pystr \<Rightarrow> unit io" where
  "py_print s tr = (Inr (), tr @ [Print s])"

text \<open>\<^verbatim>\<open>try: body  except ValueError: handler\<close>: only a \<^verbatim>\<open>ValueError\<close> reaches the handler.\<close>

definition try_except_ValueError :: "'a io \<Rightarrow> 'a io \<Rightarrow> 'a io" where
  "try_except_ValueError body handler tr =
     (case body tr of
        (Inl (ValueError m), tr') \<Rightarrow> handler tr'
      | r \<Rightarrow> r)"

section \<open>The cells\<close>

subsection \<open>Cell 1: install the SDK\<close>

text \<open>\<^verbatim>\<open>!pip install "sagemaker>=2.216.0" --upgrade --quiet\<close>. A shell line of IPython
  raises nothing, whatever the command's exit status.\<close>

definition pip_install_command :: pystr where
  \<open>pip_install_command = str ''pip install "sagemaker>=2.216.0" --upgrade --quiet''\<close>

definition cell_pip_install :: "unit io" where
  "cell_pip_install = call (Shell pip_install_command) (Inr ())"

subsection \<open>Cell 2: session and execution role\<close>

text \<open>
  \<^verbatim>\<open>
  try:
      role = sagemaker.get_execution_role()
  except ValueError:
      iam = boto3.client('iam')
      role = iam.get_role(RoleName='sagemaker_execution_role')['Role']['Arn']
  \<close>
\<close>

definition iam_fallback :: "world \<Rightarrow> pyval io" where
  "iam_fallback w =
     io_bind (call (Boto3Client (str ''iam'')) (boto3_client w (str ''iam''))) (\<lambda>iam.
     io_bind (call (IamGetRole (str ''sagemaker_execution_role''))
                (iam_get_role w (str ''sagemaker_execution_role''))) (\<lambda>response.
     io_lift (and_then (getitem_str response (str ''Role''))
                (\<lambda>r. getitem_str r (str ''Arn'')))))"

definition resolve_role :: "world \<Rightarrow> pyval io" where
  "resolve_role w =
     try_except_ValueError
       (call GetExecutionRole (sagemaker_get_execution_role w))
       (iam_fallback w)"

text \<open>
  \<^verbatim>\<open>
  sess = sagemaker.Session()
  sagemaker_session_bucket=None
  if sagemaker_session_bucket is None and sess is not None:
      sagemaker_session_bucket = sess.default_bucket()
  ...
  sess = sagemaker.Session(default_bucket=sagemaker_session_bucket)
  print(f"sagemaker role arn: {role}")
  print(f"sagemaker session region: {sess.boto_region_name}")
  \<close>
  A session is known here by its \<^verbatim>\<open>boto_region_name\<close>; a constructed session is never
  \<^verbatim>\<open>None\<close>. The cell leaves \<open>role\<close> and the region of the second session.
\<close>

definition cell_session :: "runtime \<Rightarrow> world \<Rightarrow> (pyval \<times> pystr) io" where
  "cell_session rt w =
     io_bind (call (NewSession None) (sagemaker_Session w None)) (\<lambda>sess.
     io_bind (let sagemaker_session_bucket = PNone
              in if sagemaker_session_bucket = PNone
                 then call DefaultBucket (sess_default_bucket w)
                 else io_ret sagemaker_session_bucket) (\<lambda>sagemaker_session_bucket.
     io_bind (resolve_role w) (\<lambda>role.
     io_bind (call (NewSession (Some sagemaker_session_bucket))
                (sagemaker_Session w (Some sagemaker_session_bucket))) (\<lambda>boto_region_name.
     io_bind (py_print (str ''sagemaker role arn: '' @ py_str rt role)) (\<lambda>_.
     io_bind (py_print (str ''sagemaker session region: '' @ boto_region_name)) (\<lambda>_.
     io_ret (role, boto_region_name)))))))"

subsection \<open>Cell 3: the container image\<close>

text \<open>\<^verbatim>\<open>llm_image = f"763104351884.dkr.ecr.{sess.boto_region_name}.amazonaws.com/..."\<close>\<close>

definition llm_image :: "pystr \<Rightarrow> pystr" where
  "llm_image boto_region_name =
     str ''763104351884.dkr.ecr.'' @ boto_region_name @
     str ''.amazonaws.com/huggingface-pytorch-tgi-inference:2.1-tgi2.0-gpu-py310-cu121-ubuntu22.04''"

definition cell_image :: "pystr \<Rightarrow> pystr io" where
  "cell_image boto_region_name =
     io_bind (py_print (str ''llm image uri: '' @ llm_image boto_region_name)) (\<lambda>_.
     io_ret (llm_image boto_region_name))"

subsection \<open>Cell 4: configuration, token check, model object\<close>

definition instance_type :: pystr where
  "instance_type = str ''ml.p4d.24xlarge''"

definition health_check_timeout :: int where
  "health_check_timeout = 900"

definition token_placeholder :: pystr where
  "token_placeholder = str ''<REPLACE WITH YOUR TOKEN>''"

text \<open>The dictionary display of the cell, with the string literal of its last entry as
  the argument; \<open>config\<close> is the display as committed.\<close>

definition config_with_token :: "pystr \<Rightarrow> pydict" where
  "config_with_token token =
     [(str ''HF_MODEL_ID'', PStr (str ''meta-llama/Meta-Llama-3-70B-Instruct'')),
      (str ''SM_NUM_GPUS'', PStr (str ''8'')),
      (str ''MAX_INPUT_LENGTH'', PStr (str ''2048'')),
      (str ''MAX_TOTAL_TOKENS'', PStr (str ''4096'')),
      (str ''MAX_BATCH_TOTAL_TOKENS'', PStr (str ''8192'')),
      (str ''MESSAGES_API_ENABLED'', PStr (str ''true'')),
      (str ''HUGGING_FACE_HUB_TOKEN'', PStr token)]"

definition config :: pydict where
  "config = config_with_token token_placeholder"

text \<open>
  \<^verbatim>\<open>
  assert config['HUGGING_FACE_HUB_TOKEN'] != "<REPLACE WITH YOUR TOKEN>", "Please set your Hugging Face Hub token"
  llm_model = HuggingFaceModel(role=role, image_uri=llm_image, env=config)
  \<close>
  A value differs from a string unless it is that string. The \<^verbatim>\<open>assert\<close> statement is
  executed, as in every kernel started without \<^verbatim>\<open>-O\<close>.
\<close>

definition assert_token_set :: "pydict \<Rightarrow> py_error + unit" where
  "assert_token_set cfg =
     and_then (getitem_str (PDict cfg) (str ''HUGGING_FACE_HUB_TOKEN'')) (\<lambda>v.
       if v \<noteq> PStr token_placeholder then Inr ()
       else Inl (AssertionError (str ''Please set your Hugging Face Hub token'')))"

definition cell_model :: "world \<Rightarrow> pydict \<Rightarrow> pyval \<Rightarrow> pystr \<Rightarrow> unit io" where
  "cell_model w cfg role image_uri =
     io_bind (io_lift (assert_token_set cfg)) (\<lambda>_.
     call (NewHuggingFaceModel role image_uri cfg) (HuggingFaceModel w role image_uri cfg))"

subsection \<open>Cell 5: deployment\<close>

text \<open>
  \<^verbatim>\<open>
  llm = llm_model.deploy(
    initial_instance_count=1,
    instance_type=instance_type,
    container_startup_health_check_timeout=health_check_timeout)
  \<close>
  The predictor is known here by its \<^verbatim>\<open>endpoint_name\<close>.
\<close>

definition cell_deploy :: "world \<Rightarrow> pystr io" where
  "cell_deploy w =
     call (Deploy 1 instance_type health_check_timeout)
       (llm_model_deploy w 1 instance_type health_check_timeout)"

subsection \<open>Cells 6 and 7: prompt, parameters, inference\<close>

definition messages :: pyval where
  "messages = PList
     [PDict [(str ''role'', PStr (str ''system'')),
             (str ''content'', PStr (str ''You are a helpful assistant.''))],
      PDict [(str ''role'', PStr (str ''user'')),
             (str ''content'', PStr (str ''What is deep learning?''))]]"

text \<open>The floats of the display: \<^verbatim>\<open>0.6\<close> is the double \<open>5404319552844595 / 2 ^ 53\<close> and
  \<^verbatim>\<open>0.9\<close> is \<open>8106479329266893 / 2 ^ 53\<close>.\<close>

definition parameters :: pydict where
  "parameters =
     [(str ''model'', PStr (str ''meta-llama/Meta-Llama-3-70B-Instruct'')),
      (str ''top_p'', PFloat (Finite False 5404319552844595 (- 53))),
      (str ''temperature'', PFloat (Finite False 8106479329266893 (- 53))),
      (str ''max_tokens'', PInt 512),
      (str ''stop'', PList [PStr (str ''<|eot_id|>'')])]"

text \<open>\<^verbatim>\<open>{"messages" :messages, **parameters}\<close>\<close>

definition request_payload :: "pyval \<Rightarrow> pydict \<Rightarrow> pyval" where
  "request_payload msgs params = PDict (dict_update [(str ''messages'', msgs)] params)"

text \<open>\<^verbatim>\<open>chat["choices"][0]["message"]["content"].strip()\<close>\<close>

definition extract_content :: "pyval \<Rightarrow> py_error + pyval" where
  "extract_content chat =
     and_then (getitem_str chat (str ''choices'')) (\<lambda>choices.
     and_then (getitem_int choices 0) (\<lambda>choice.
     and_then (getitem_str choice (str ''message'')) (\<lambda>message.
     and_then (getitem_str message (str ''content'')) (\<lambda>content.
     call_strip content))))"

text \<open>
  \<^verbatim>\<open>
  chat = llm.predict({"messages" :messages, **parameters})
  print(chat["choices"][0]["message"]["content"].strip())
  \<close>
\<close>

definition cell_chat :: "runtime \<Rightarrow> world \<Rightarrow> pyval \<Rightarrow> pydict \<Rightarrow> unit io" where
  "cell_chat rt w msgs params =
     io_bind (call (Predict (request_payload msgs params))
                (llm_predict w (request_payload msgs params))) (\<lambda>chat.
     io_bind (io_lift (extract_content chat)) (\<lambda>text.
     py_print (py_str rt text)))"

subsection \<open>Cells 8 and 9: the benchmark tool\<close>

text \<open>The first line of the cell ends in a space, which IPython strips before it hands
  the command to the shell.\<close>

definition cell_llmperf_install :: "unit io" where
  "cell_llmperf_install =
     io_bind (call (Shell (str ''git clone https://github.com/philschmid/llmperf.git''))
                (Inr ())) (\<lambda>_.
     call (Shell (str ''pip install -e llmperf/'')) (Inr ()))"

text \<open>The command line as IPython hands it to the shell: the lines of the cell joined,
  each backslash-newline pair replaced by a space (after the space that precedes the
  backslash, hence two spaces at each join), and \<^verbatim>\<open>{llm.endpoint_name}\<close> filled in.\<close>

definition benchmark_command :: "pystr \<Rightarrow> pystr" where
  \<open>benchmark_command endpoint_name =
     str ''MESSAGES_API=true python llmperf/token_benchmark_ray.py  --model '' @
     endpoint_name @
     str ''  --llm-api "sagemaker"  --max-num-completed-requests 500  --timeout 600  --num-concurrent-requests 25  --results-dir "results"''\<close>

definition cell_benchmark :: "pystr \<Rightarrow> unit io" where
  "cell_benchmark endpoint_name = call (Shell (benchmark_command endpoint_name)) (Inr ())"

subsection \<open>Cell 10: the summary\<close>

text \<open>
  \<^verbatim>\<open>
  print("Concurrent requests: 25")
  print(f"Avg. Input token length: {data['mean_input_tokens']}")
  print(f"Avg. Output token length: {data['mean_output_tokens']}")
  print(f"Avg. First-Time-To-Token: {data['results_ttft_s_mean']*1000:.2f}ms")
  print(f"Avg. Thorughput: {data['results_mean_output_throughput_token_per_s']:.2f} tokens/sec")
  print(f"Avg. Latency: {data['results_inter_token_latency_s_mean']*1000:.2f}ms/token")
  \<close>
\<close>

definition print_summary :: "runtime \<Rightarrow> pyval \<Rightarrow> unit io" where
  "print_summary rt data =
     io_bind (py_print (str ''Concurrent requests: 25'')) (\<lambda>_.
     io_bind (io_lift (getitem_str data (str ''mean_input_tokens''))) (\<lambda>v.
     io_bind (py_print (str ''Avg. Input token length: '' @ py_str rt v)) (\<lambda>_.
     io_bind (io_lift (getitem_str data (str ''mean_output_tokens''))) (\<lambda>v.
     io_bind (py_print (str ''Avg. Output token length: '' @ py_str rt v)) (\<lambda>_.
     io_bind (io_lift (and_then (getitem_str data (str ''results_ttft_s_mean'')) (\<lambda>v.
                       and_then (py_mul_int rt v 1000) (py_format_2f rt)))) (\<lambda>t.
     io_bind (py_print (str ''Avg. First-Time-To-Token: '' @ t @ str ''ms'')) (\<lambda>_.
     io_bind (io_lift (and_then
                (getitem_str data (str ''results_mean_output_throughput_token_per_s''))
                (py_format_2f rt))) (\<lambda>t.
     io_bind (py_print (str ''Avg. Thorughput: '' @ t @ str '' tokens/sec'')) (\<lambda>_.
     io_bind (io_lift (and_then
                (getitem_str data (str ''results_inter_token_latency_s_mean'')) (\<lambda>v.
                 and_then (py_mul_int rt v 1000) (py_format_2f rt)))) (\<lambda>t.
     py_print (str ''Avg. Latency: '' @ t @ str ''ms/token'')))))))))))"

text \<open>
  \<^verbatim>\<open>
  with open(glob.glob(f'results/*summary.json')[0], 'r') as file:
      data = json.load(file)
  \<close>
  \<open>open_json_load\<close> is \<^verbatim>\<open>open\<close> followed by \<^verbatim>\<open>json.load\<close>.
\<close>

definition summary_pattern :: pystr where
  "summary_pattern = str ''results/*summary.json''"

definition cell_summary :: "runtime \<Rightarrow> world \<Rightarrow> unit io" where
  "cell_summary rt w =
     io_bind (call (GlobCall summary_pattern) (Inr (glob_glob w summary_pattern))) (\<lambda>files.
     io_bind (case files of [] \<Rightarrow> io_raise IndexError | path # _ \<Rightarrow> io_ret path) (\<lambda>path.
     io_bind (call (OpenFile path) (open_json_load w path)) (\<lambda>data.
     print_summary rt data)))"

subsection \<open>Cell 11: clean up\<close>

definition cell_cleanup :: "world \<Rightarrow> unit io" where
  "cell_cleanup w =
     io_bind (call DeleteModel (llm_delete_model w)) (\<lambda>_.
     call DeleteEndpoint (llm_delete_endpoint w))"

subsection \<open>The notebook, run from top to bottom\<close>

text \<open>A run stops at the first cell that raises. The configuration is an argument, so
  that a run with the token filled in can be stated; \<open>run_notebook\<close> is the notebook as
  committed.\<close>

definition run_cells :: "runtime \<Rightarrow> world \<Rightarrow> pydict \<Rightarrow> unit io" where
  "run_cells rt w cfg =
     io_bind cell_pip_install (\<lambda>_.
     io_bind (cell_session rt w) (\<lambda>(role, boto_region_name).
     io_bind (cell_image boto_region_name) (\<lambda>image_uri.
     io_bind (cell_model w cfg role image_uri) (\<lambda>_.
     io_bind (cell_deploy w) (\<lambda>endpoint_name.
     io_bind (cell_chat rt w messages parameters) (\<lambda>_.
     io_bind cell_llmperf_install (\<lambda>_.
     io_bind (cell_benchmark endpoint_name) (\<lambda>_.
     io_bind (cell_summary rt w) (\<lambda>_.
     cell_cleanup w)))))))))"

definition run_notebook :: "runtime \<Rightarrow> world \<Rightarrow> unit io" where
  "run_notebook rt w = run_cells rt w config"

section \<open>Predicates on values and traces\<close>

text \<open>The events that create the model object or deploy it.\<close>

fun deployment_call :: "event \<Rightarrow> bool" where
  "deployment_call (NewHuggingFaceModel r i e) = True"
| "deployment_call (Deploy n t h) = True"
| "deployment_call ev = False"

text \<open>A model object, if this event creates one, gets the environment \<open>cfg\<close>.\<close>

fun model_env_is :: "pydict \<Rightarrow> event \<Rightarrow> bool" where
  "model_env_is cfg (NewHuggingFaceModel r i e) = (e = cfg)"
| "model_env_is cfg ev = True"

fun is_str :: "pyval \<Rightarrow> bool" where
  "is_str (PStr s) = True"
| "is_str v = False"

text \<open>An entry of the message list: a \<^verbatim>\<open>role\<close> out of system, user, assistant, and a
  \<^verbatim>\<open>content\<close> string.\<close>

fun chat_message :: "pyval \<Rightarrow> bool" where
  "chat_message (PDict [(k1, PStr r), (k2, PStr c)]) =
     (k1 = str ''role'' \<and> k2 = str ''content'' \<and>
      (r = str ''system'' \<or> r = str ''user'' \<or> r = str ''assistant''))"
| "chat_message v = False"

text \<open>
  Two properties of a cell, for reasoning about a run: \<open>emits P m\<close> says that \<open>m\<close> only
  appends to the trace, and only events that satisfy \<open>P\<close>; \<open>always_raises m\<close> says that
  \<open>m\<close> ends in an exception from every trace.
\<close>

definition emits :: "(event \<Rightarrow> bool) \<Rightarrow> 'a io \<Rightarrow> bool" where
  "emits P m = (\<forall>tr. \<exists>evs. snd (m tr) = tr @ evs \<and> list_all P evs)"

definition always_raises :: "'a io \<Rightarrow> bool" where
  "always_raises m = (\<forall>tr. \<exists>e. fst (m tr) = Inl e)"

section \<open>Sample worlds\<close>

text \<open>
  Concrete answers of the outside, for evaluating the cells: a summary file with the
  figures of the notebook's recorded output (the doubles of \<^verbatim>\<open>1.30128\<close>, \<^verbatim>\<open>1116.25\<close> and
  \<^verbatim>\<open>0.01045\<close>), a chat completion, a world in which every call succeeds, and variants of
  it in which one call answers differently.
\<close>

definition summary_data :: pyval where
  "summary_data = PDict
     [(str ''mean_input_tokens'', PInt 550),
      (str ''mean_output_tokens'', PInt 150),
      (str ''results_ttft_s_mean'', PFloat (Finite False 5860444123104679 (- 52))),
      (str ''results_mean_output_throughput_token_per_s'', PFloat (Finite False 4465 (- 2))),
      (str ''results_inter_token_latency_s_mean'', PFloat (Finite False 6024014861570775 (- 59)))]"

definition chat_response :: "pystr \<Rightarrow> pyval" where
  "chat_response c =
     PDict [(str ''choices'', PList [PDict [(str ''message'', PDict [(str ''content'', PStr c)])]])]"

text \<open>A chat completion as the endpoint returns it, with the keys around the choices and
  a second choice, and an error envelope of the endpoint.\<close>

definition chat_completion :: pyval where
  "chat_completion = PDict
     [(str ''id'', PStr (str '''')),
      (str ''object'', PStr (str ''text_completion'')),
      (str ''created'', PInt 1713532800),
      (str ''model'', PStr (str ''meta-llama/Meta-Llama-3-70B-Instruct'')),
      (str ''choices'', PList
         [PDict [(str ''index'', PInt 0),
                 (str ''message'', PDict [(str ''role'', PStr (str ''assistant'')),
                                           (str ''content'', PStr (str '' X ''))]),
                 (str ''logprobs'', PNone),
                 (str ''finish_reason'', PStr (str ''eos_token''))],
          PDict [(str ''index'', PInt 1),
                 (str ''message'', PDict [(str ''role'', PStr (str ''assistant'')),
                                           (str ''content'', PStr (str ''Y''))])]]),
      (str ''usage'', PDict [(str ''prompt_tokens'', PInt 27),
                              (str ''completion_tokens'', PInt 1),
                              (str ''total_tokens'', PInt 28)])]"

definition error_envelope :: pyval where
  "error_envelope = PDict
     [(str ''error'', PStr (str ''Input validation error'')),
      (str ''error_type'', PStr (str ''validation'')),
      (str ''generated_text'', PStr (str '' X ''))]"

definition world_ok :: world where
  "world_ok = \<lparr>
     sagemaker_Session = (\<lambda>bucket. Inr (str ''us-east-1'')),
     sess_default_bucket = Inr (PStr (str ''sagemaker-us-east-1-123456789012'')),
     sagemaker_get_execution_role = Inr (PStr (str ''arn:aws:iam::123456789012:role/notebook'')),
     boto3_client = (\<lambda>service. Inr ()),
     iam_get_role = (\<lambda>name. Inr (PDict [(str ''Role'',
        PDict [(str ''RoleName'', PStr name),
               (str ''Arn'', PStr (str ''arn:aws:iam::123456789012:role/'' @ name))])])),
     HuggingFaceModel = (\<lambda>role image_uri env. Inr ()),
     llm_model_deploy = (\<lambda>n t h. Inr (str ''llama3-endpoint'')),
     llm_predict = (\<lambda>payload. Inr (chat_response (str '' Deep learning is a subset of machine learning. ''))),
     glob_glob = (\<lambda>pattern. [str ''results/llama3_550_150_summary.json'', str ''results/old_summary.json'']),
     open_json_load = (\<lambda>path. Inr summary_data),
     llm_delete_model = Inr (),
     llm_delete_endpoint = Inr () \<rparr>"

text \<open>The caller's identity is a user, not a role: \<^verbatim>\<open>get_execution_role\<close> raises
  \<^verbatim>\<open>ValueError\<close>.\<close>

definition world_not_a_role :: world where
  "world_not_a_role = world_ok \<lparr> sagemaker_get_execution_role :=
     Inl (ValueError (str ''The current AWS identity is not a role'')) \<rparr>"

definition world_no_fallback_role :: world where
  "world_no_fallback_role = world_not_a_role \<lparr> iam_get_role :=
     (\<lambda>name. Inl (OtherError (str ''NoSuchEntityException''))) \<rparr>"

text \<open>The primary lookup cannot reach the identity service: botocore raises
  \<^verbatim>\<open>EndpointConnectionError\<close>, which is not a \<^verbatim>\<open>ValueError\<close>.\<close>

definition world_sts_unreachable :: world where
  "world_sts_unreachable = world_ok \<lparr> sagemaker_get_execution_role :=
     Inl (OtherError (str ''EndpointConnectionError'')) \<rparr>"

definition world_no_results :: world where
  "world_no_results = world_ok \<lparr> glob_glob := (\<lambda>pattern. []) \<rparr>"

text \<open>A trace that ends in a benchmark run with another concurrency.\<close>

definition benchmark_trace_50 :: trace where
  "benchmark_trace_50 = [Shell (str ''python llmperf/token_benchmark_ray.py --num-concurrent-requests 50'')]"

section \<open>Traces of composed cells\<close>

lemma emits_ret: "emits P (io_ret x)"
  by (simp add: emits_def io_ret_def)

lemma emits_raise: "emits P (io_raise e)"
  by (simp add: emits_def io_raise_def)

lemma emits_lift: "emits P (io_lift r)"
  by (simp add: emits_def io_lift_def)

lemma emits_call: "P ev \<Longrightarrow> emits P (call ev r)"
  by (simp add: emits_def call_def)

lemma emits_print: "P (Print s) \<Longrightarrow> emits P (py_print s)"
  by (simp add: emits_def py_print_def)

lemma emits_bind:
  assumes m: "emits P m" and f: "\<And>x. emits P (f x)"
  shows "emits P (io_bind m f)"
  unfolding emits_def
proof
  fix tr
  from m obtain evs where 1: "snd (m tr) = tr @ evs" "list_all P evs"
    unfolding emits_def by blast
  show "\<exists>evs. snd (io_bind m f tr) = tr @ evs \<and> list_all P evs"
  proof (cases "fst (m tr)")
    case (Inl e)
    then have "io_bind m f tr = (Inl e, snd (m tr))"
      by (auto simp add: io_bind_def split: prod.splits)
    with 1 show ?thesis by auto
  next
    case (Inr x)
    then have 2: "io_bind m f tr = f x (snd (m tr))"
      by (auto simp add: io_bind_def split: prod.splits)
    from f obtain evs' where 3: "snd (f x (tr @ evs)) = (tr @ evs) @ evs'" "list_all P evs'"
      unfolding emits_def by blast
    from 1 2 3 have "snd (io_bind m f tr) = tr @ (evs @ evs')" by simp
    moreover from 1 3 have "list_all P (evs @ evs')" by simp
    ultimately show ?thesis by blast
  qed
qed

lemma emits_bind_raises:
  assumes m: "emits P m" and f: "\<And>x tr. \<exists>e. f x tr = (Inl e, tr)"
  shows "emits P (io_bind m f)"
  unfolding emits_def
proof
  fix tr
  from m obtain evs where 1: "snd (m tr) = tr @ evs" "list_all P evs"
    unfolding emits_def by blast
  have "snd (io_bind m f tr) = snd (m tr)"
  proof (cases "m tr")
    case (Pair r tr')
    show ?thesis
    proof (cases r)
      case (Inl e)
      with Pair show ?thesis by (simp add: io_bind_def)
    next
      case (Inr x)
      from f obtain e where "f x tr' = (Inl e, tr')" by blast
      with Pair Inr show ?thesis by (simp add: io_bind_def)
    qed
  qed
  with 1 show "\<exists>evs. snd (io_bind m f tr) = tr @ evs \<and> list_all P evs" by auto
qed

lemma emits_try:
  assumes b: "emits P body" and h: "emits P handler"
  shows "emits P (try_except_ValueError body handler)"
  unfolding emits_def
proof
  fix tr
  from b obtain evs where 1: "snd (body tr) = tr @ evs" "list_all P evs"
    unfolding emits_def by blast
  from h obtain evs' where 3: "snd (handler (tr @ evs)) = (tr @ evs) @ evs'" "list_all P evs'"
    unfolding emits_def by blast
  show "\<exists>evs. snd (try_except_ValueError body handler tr) = tr @ evs \<and> list_all P evs"
  proof (cases "\<exists>m. fst (body tr) = Inl (ValueError m)")
    case True
    then have "try_except_ValueError body handler tr = handler (snd (body tr))"
      by (auto simp add: try_except_ValueError_def split: prod.splits)
    with 1 3 have "snd (try_except_ValueError body handler tr) = tr @ (evs @ evs')" by simp
    moreover from 1 3 have "list_all P (evs @ evs')" by simp
    ultimately show ?thesis by blast
  next
    case False
    then have "try_except_ValueError body handler tr = body tr"
      by (auto simp add: try_except_ValueError_def split: prod.splits sum.splits py_error.splits)
    with 1 show ?thesis by auto
  qed
qed

lemma emits_mono: "emits P m \<Longrightarrow> (\<And>ev. P ev \<Longrightarrow> Q ev) \<Longrightarrow> emits Q m"
  unfolding emits_def by (metis list_all_iff)

lemma emits_trace: "emits P m \<Longrightarrow> list_all P (snd (m []))"
  unfolding emits_def
proof -
  assume "\<forall>tr. \<exists>evs. snd (m tr) = tr @ evs \<and> list_all P evs"
  then obtain evs where "snd (m []) = [] @ evs" "list_all P evs" by blast
  then show ?thesis by simp
qed

lemma always_raises_bind_first: "always_raises m \<Longrightarrow> always_raises (io_bind m f)"
  unfolding always_raises_def
proof
  fix tr
  assume "\<forall>tr. \<exists>e. fst (m tr) = Inl e"
  then obtain e where "fst (m tr) = Inl e" by blast
  then have "fst (io_bind m f tr) = Inl e"
    by (auto simp add: io_bind_def split: prod.splits)
  then show "\<exists>e. fst (io_bind m f tr) = Inl e" by blast
qed

lemma always_raises_bind: "(\<And>x. always_raises (f x)) \<Longrightarrow> always_raises (io_bind m f)"
  unfolding always_raises_def
  by (auto simp add: io_bind_def split: prod.splits sum.splits)

lemma io_bind_print_first:
  assumes "emits P (f ())"
  shows "\<exists>r rest. io_bind (py_print s) f tr = (r, tr @ Print s # rest)"
proof -
  from assms obtain evs where "snd (f () (tr @ [Print s])) = (tr @ [Print s]) @ evs"
    unfolding emits_def by blast
  then have "io_bind (py_print s) f tr = (fst (f () (tr @ [Print s])), tr @ Print s # evs)"
    by (simp add: io_bind_def py_print_def prod_eq_iff)
  then show ?thesis by blast
qed

text \<open>An exception of a sequence is the exception of its first part, or of the rest
  after the first part returned.\<close>

lemma io_bind_raises:
  assumes "fst (io_bind m f tr) = Inl e"
  shows "fst (m tr) = Inl e \<or> (\<exists>x tr'. m tr = (Inr x, tr') \<and> fst (f x tr') = Inl e)"
proof (cases "m tr")
  case (Pair r tr')
  show ?thesis
  proof (cases r)
    case (Inl e')
    with Pair assms show ?thesis by (simp add: io_bind_def)
  next
    case (Inr x)
    with Pair assms show ?thesis by (simp add: io_bind_def)
  qed
qed

section \<open>Dictionaries\<close>

lemma map_of_dict_set: "map_of (dict_set d k v) = (map_of d)(k \<mapsto> v)"
  by (induction d k v rule: dict_set.induct) auto

lemma map_of_dict_update_other:
  "map_of e k = None \<Longrightarrow> map_of (dict_update d e) k = map_of d k"
  unfolding dict_update_def
proof (induction e arbitrary: d)
  case Nil
  then show ?case by simp
next
  case (Cons kv e)
  obtain k' v' where kv: "kv = (k', v')" by (cases kv)
  with Cons.prems have "k' \<noteq> k" "map_of e k = None" by (auto split: if_splits)
  with Cons.IH [of "dict_set d k' v'"] kv show ?case
    by (simp add: map_of_dict_set)
qed

lemma config_token: "map_of (config_with_token token) (str ''HUGGING_FACE_HUB_TOKEN'') = Some (PStr token)"
  by (simp add: config_with_token_def str_def)

section \<open>Rounding to binary64 and to two decimals\<close>

lemma bitlen_lower: "0 < n \<Longrightarrow> 2 ^ (bitlen n - 1) \<le> n"
proof (induction n rule: bitlen.induct)
  case (1 n)
  show ?case
  proof (cases "n div 2 = 0")
    case True
    with 1 have "n = 1" by linarith
    then show ?thesis by (simp add: bitlen.simps)
  next
    case False
    with 1 have ih: "2 ^ (bitlen (n div 2) - 1) \<le> n div 2" by simp
    from False have pos: "0 < bitlen (n div 2)" by (simp add: bitlen.simps [of "n div 2"])
    from 1 have "bitlen n - 1 = bitlen (n div 2)" by (simp add: bitlen.simps [of n])
    also from pos have "\<dots> = Suc (bitlen (n div 2) - 1)" by simp
    finally have "(2::nat) ^ (bitlen n - 1) = 2 * 2 ^ (bitlen (n div 2) - 1)" by simp
    also from ih have "\<dots> \<le> 2 * (n div 2)" by simp
    also have "\<dots> \<le> n" by simp
    finally show ?thesis .
  qed
qed

lemma round_half_even_error:
  assumes "0 < d"
  shows "2 * \<bar>int (round_half_even n d) * int d - int n\<bar> \<le> int d"
proof -
  have n: "int n = int (n div d) * int d + int (n mod d)"
    by (metis div_mult_mod_eq of_nat_add of_nat_mult)
  have r: "n mod d < d" using assms by simp
  show ?thesis
    unfolding round_half_even_def
    using n r by (auto simp add: algebra_simps)
qed

lemma round_half_even_rat:
  assumes "0 < d"
  shows "\<bar>of_nat (round_half_even n d) - (of_nat n :: rat) / of_nat d\<bar> \<le> 1 / 2"
proof -
  from assms have d: "0 < (of_nat d :: rat)" by simp
  have "2 * \<bar>of_int (int (round_half_even n d) * int d - int n)\<bar> \<le> (of_int (int d) :: rat)"
    using round_half_even_error [OF assms, of n]
    by (metis (mono_tags) of_int_abs of_int_le_iff of_int_mult of_int_numeral)
  then have "2 * \<bar>of_nat (round_half_even n d) * of_nat d - (of_nat n :: rat)\<bar> \<le> of_nat d"
    by simp
  moreover have "of_nat (round_half_even n d) * of_nat d - (of_nat n :: rat)
      = (of_nat (round_half_even n d) - of_nat n / of_nat d) * of_nat d"
    using d by (simp add: field_simps)
  ultimately have "2 * (\<bar>of_nat (round_half_even n d) - (of_nat n :: rat) / of_nat d\<bar> * of_nat d) \<le> 1 * of_nat d"
    using d by (simp add: abs_mult)
  then have "2 * \<bar>of_nat (round_half_even n d) - (of_nat n :: rat) / of_nat d\<bar> \<le> 1"
    using d by (simp only: mult.assoc [symmetric] mult_le_cancel_right_pos)
  then show ?thesis by simp
qed

lemma pow2_split: "(2::rat) powi (a + b) = 2 powi a * 2 powi b"
  by (rule power_int_add) simp

lemma pow2_nat: "0 \<le> a \<Longrightarrow> (2::rat) ^ nat a = 2 powi a"
  by (simp add: power_int_def)

lemma ieee_format_2f_rounds:
  "\<exists>k. ieee_format_2f (Finite s m e) = two_decimals s k \<and>
       \<bar>of_nat k / 100 - float_magnitude (Finite s m e)\<bar> \<le> 1 / 200"
proof (cases "0 \<le> e")
  case True
  then have "of_nat (100 * m * 2 ^ nat e) / 100 = (of_nat m :: rat) * 2 powi e"
    by (simp add: pow2_nat)
  then have "\<bar>of_nat (100 * m * 2 ^ nat e) / 100 - float_magnitude (Finite s m e)\<bar> \<le> 1 / 200"
    by (simp only: float_magnitude.simps)
  moreover from True have "ieee_format_2f (Finite s m e) = two_decimals s (100 * m * 2 ^ nat e)"
    by simp
  ultimately show ?thesis by blast
next
  case False
  define d :: nat where "d = 2 ^ nat (- e)"
  define k where "k = round_half_even (100 * m) d"
  have d: "0 < d" by (simp add: d_def)
  from False have p: "(2::rat) powi e = 1 / of_nat d"
    by (simp add: power_int_def d_def inverse_eq_divide power_one_over)
  have "\<bar>of_nat k - (of_nat (100 * m) :: rat) / of_nat d\<bar> \<le> 1 / 2"
    unfolding k_def by (rule round_half_even_rat [OF d])
  then have "\<bar>of_nat k - 100 * ((of_nat m :: rat) * 2 powi e)\<bar> \<le> 1 / 2"
    by (simp add: p)
  then have "\<bar>of_nat k / 100 - (of_nat m :: rat) * 2 powi e\<bar> \<le> 1 / 200"
    by (simp add: abs_le_iff field_simps)
  moreover from False have "ieee_format_2f (Finite s m e) = two_decimals s k"
    by (simp add: k_def d_def)
  ultimately show ?thesis by auto
qed

lemma round_to_double_error:
  assumes "round_to_double s n e = Finite s' m q"
  shows "s' = s \<and>
         \<bar>(of_nat m :: rat) * 2 powi q - of_nat n * 2 powi e\<bar>
           \<le> max (of_nat n * 2 powi e / 2 ^ 53) (2 powi (- 1075))"
proof -
  define E where "E = int (bitlen n) - 1 + e"
  from assms have s: "s' = s"
    and q: "q = max E (- 1022) - 52"
    and m: "m = (if q \<le> e then n * 2 ^ nat (e - q) else round_half_even n (2 ^ nat (q - e)))"
    by (auto simp add: round_to_double_def Let_def E_def split: if_splits)
  have small: "(0::rat) < 2 powi (- 1075)" by simp
  have "\<bar>(of_nat m :: rat) * 2 powi q - of_nat n * 2 powi e\<bar>
           \<le> max (of_nat n * 2 powi e / 2 ^ 53) (2 powi (- 1075))"
  proof (cases "q \<le> e")
    case True
    with m have "(of_nat m :: rat) = of_nat n * 2 powi (e - q)"
      by (simp add: pow2_nat)
    then have "(of_nat m :: rat) * 2 powi q = of_nat n * (2 powi (e - q) * 2 powi q)"
      by simp
    also have "(2::rat) powi (e - q) * 2 powi q = 2 powi e"
      using pow2_split [of "e - q" q] by simp
    finally show ?thesis using small by (simp add: max_def)
  next
    case False
    define d :: nat where "d = 2 ^ nat (q - e)"
    have d: "0 < d" by (simp add: d_def)
    from False have dq: "(of_nat d :: rat) = 2 powi (q - e)"
      by (simp add: d_def pow2_nat)
    have qe: "(2::rat) powi q = 2 powi (q - e) * 2 powi e"
      using pow2_split [of "q - e" e] by simp
    from False m have "m = round_half_even n d" by (simp add: d_def)
    then have "\<bar>of_nat m - (of_nat n :: rat) / of_nat d\<bar> \<le> 1 / 2"
      using round_half_even_rat [OF d, of n] by simp
    then have "\<bar>of_nat m - (of_nat n :: rat) / of_nat d\<bar> * 2 powi q \<le> 1 / 2 * 2 powi q"
      by (rule mult_right_mono) simp
    moreover have "\<bar>of_nat m - (of_nat n :: rat) / of_nat d\<bar> * 2 powi q
        = \<bar>(of_nat m :: rat) * 2 powi q - of_nat n * 2 powi e\<bar>"
    proof -
      have "(of_nat n :: rat) / of_nat d * 2 powi q = of_nat n * 2 powi e"
        by (simp add: dq qe)
      then have "(of_nat m - (of_nat n :: rat) / of_nat d) * 2 powi q
          = of_nat m * 2 powi q - of_nat n * 2 powi e"
        by (simp add: algebra_simps)
      then show ?thesis
        by (metis abs_mult abs_of_pos zero_less_power_int zero_less_numeral)
    qed
    ultimately have err: "\<bar>(of_nat m :: rat) * 2 powi q - of_nat n * 2 powi e\<bar> \<le> 2 powi q / 2"
      by simp
    show ?thesis
    proof (cases "- 1022 \<le> E")
      case low: False
      with q have "q = - 1074" by simp
      then have "(2::rat) powi q / 2 = 2 powi (- 1075)"
        using pow2_split [of "- 1075" 1] by simp
      with err show ?thesis by (simp add: max_def)
    next
      case True
      with q have qE: "q = E - 52" by simp
      show ?thesis
      proof (cases "n = 0")
        case True
        with \<open>m = round_half_even n d\<close> d have "m = 0"
          by (simp add: round_half_even_def)
        with True small show ?thesis by (simp add: max_def)
      next
        case False
        then have "2 ^ (bitlen n - 1) \<le> n" using bitlen_lower [of n] by simp
        then have "(2::rat) ^ (bitlen n - 1) \<le> of_nat n"
          by (metis of_nat_le_iff of_nat_numeral of_nat_power)
        moreover from False have "0 < bitlen n" by (simp add: bitlen.simps [of n])
        then have "(2::rat) powi (int (bitlen n) - 1) = 2 powi int (bitlen n - 1)"
          by (simp add: of_nat_diff)
        then have "(2::rat) powi (int (bitlen n) - 1) = 2 ^ (bitlen n - 1)"
          by (simp only: power_int_of_nat)
        ultimately have "(2::rat) powi (int (bitlen n) - 1) \<le> of_nat n"
          by (simp only:)
        then have "(2::rat) powi (int (bitlen n) - 1) * 2 powi e \<le> of_nat n * 2 powi e"
          by (rule mult_right_mono) simp
        then have "(2::rat) powi E \<le> of_nat n * 2 powi e"
          using pow2_split [of "int (bitlen n) - 1" e] by (simp add: E_def)
        moreover have "(2::rat) powi q / 2 = 2 powi E / 2 ^ 53"
          using pow2_split [of "E - 53" 53] pow2_split [of "E - 53" 1] by (simp add: qE)
        ultimately have "(2::rat) powi q / 2 \<le> of_nat n * 2 powi e / 2 ^ 53"
          by (simp add: divide_right_mono)
        with err show ?thesis by (simp add: max_def)
      qed
    qed
  qed
  with s show ?thesis by simp
qed

lemma ieee_mul_thousand_error:
  assumes "ieee_mul (Finite s m e) (Finite False 8796093022208000 (- 43)) = Finite s' m' e'"
  shows "s' = s \<and>
         \<bar>float_magnitude (Finite s' m' e') - 1000 * float_magnitude (Finite s m e)\<bar>
           \<le> max (1000 * float_magnitude (Finite s m e) / 2 ^ 53) (2 powi (- 1075))"
proof -
  have "(of_nat (m * 8796093022208000) :: rat) * 2 powi (e + - 43)
          = 1000 * (of_nat m * 2 powi e)"
    using pow2_split [of e "- 43"] by simp
  moreover from assms
  have "round_to_double s (m * 8796093022208000) (e + - 43) = Finite s' m' e'"
    by simp
  ultimately show ?thesis
    using round_to_double_error [of s "m * 8796093022208000" "e + - 43" s' m' e']
    by (simp only: float_magnitude.simps)
qed

lemma ieee_of_int_1000: "ieee_of_int 1000 = Inr (Finite False 8796093022208000 (- 43))"
  by (simp add: ieee_of_int_def round_to_double_def bitlen.simps Let_def)

text \<open>The figures of the recorded output: \<^verbatim>\<open>1.30128 * 1000\<close>, \<^verbatim>\<open>1116.25\<close> and
  \<^verbatim>\<open>0.01045 * 1000\<close>.\<close>

lemma ttft_sample:
  "ieee_mul (Finite False 5860444123104679 (- 52)) (Finite False 8796093022208000 (- 43))
     = Finite False 5723089963969413 (- 42)"
  by (simp add: round_to_double_def bitlen.simps round_half_even_def Let_def)

lemma ttft_sample_text:
  "ieee_format_2f (Finite False 5723089963969413 (- 42)) = str ''1301.28''"
  by (simp add: round_half_even_def two_decimals_def dec_nat.simps str_def)

lemma throughput_sample:
  "ieee_format_2f (Finite False 4465 (- 2)) = str ''1116.25''"
  by (simp add: round_half_even_def two_decimals_def dec_nat.simps str_def)

lemma latency_sample:
  "ieee_format_2f (ieee_mul (Finite False 6024014861570775 (- 59)) (Finite False 8796093022208000 (- 43)))
     = str ''10.45''"
  by (simp add: round_to_double_def bitlen.simps round_half_even_def Let_def two_decimals_def dec_nat.simps str_def)

text \<open>On a tie the last digit kept is even.\<close>

lemma round_half_even_tie:
  assumes "0 < d" and "2 * \<bar>int (round_half_even n d) * int d - int n\<bar> = int d"
  shows "even (round_half_even n d)"
proof -
  have n: "int n = int (n div d) * int d + int (n mod d)"
    by (metis div_mult_mod_eq of_nat_add of_nat_mult)
  have r: "n mod d < d" using assms by simp
  from assms(2) n r show ?thesis
    unfolding round_half_even_def
    by (auto simp add: algebra_simps split: if_splits)
qed

lemma round_half_even_rat_tie:
  assumes "0 < d" and "\<bar>of_nat (round_half_even n d) - (of_nat n :: rat) / of_nat d\<bar> = 1 / 2"
  shows "even (round_half_even n d)"
proof -
  from assms(1) have d: "0 < (of_nat d :: rat)" by simp
  have "(of_nat (round_half_even n d) - (of_nat n :: rat) / of_nat d) * of_nat d
      = of_nat (round_half_even n d) * of_nat d - of_nat n"
    using d by (simp add: field_simps)
  then have "\<bar>of_nat (round_half_even n d) * of_nat d - (of_nat n :: rat)\<bar>
      = \<bar>of_nat (round_half_even n d) - (of_nat n :: rat) / of_nat d\<bar> * of_nat d"
    using d by (metis abs_mult abs_of_pos)
  with assms(2) have "2 * \<bar>of_nat (round_half_even n d) * of_nat d - (of_nat n :: rat)\<bar> = of_nat d"
    by simp
  then have "(of_int (2 * \<bar>int (round_half_even n d) * int d - int n\<bar>) :: rat) = of_int (int d)"
    by simp
  then have "2 * \<bar>int (round_half_even n d) * int d - int n\<bar> = int d"
    by (simp only: of_int_eq_iff)
  with assms(1) show ?thesis by (rule round_half_even_tie)
qed

lemma ieee_format_2f_nearest:
  "\<exists>k. ieee_format_2f (Finite s m e) = two_decimals s k \<and>
       \<bar>of_nat k / 100 - float_magnitude (Finite s m e)\<bar> \<le> 1 / 200 \<and>
       (\<bar>of_nat k / 100 - float_magnitude (Finite s m e)\<bar> = 1 / 200 \<longrightarrow> even k)"
proof (cases "0 \<le> e")
  case True
  then have "of_nat (100 * m * 2 ^ nat e) / 100 = (of_nat m :: rat) * 2 powi e"
    by (simp add: pow2_nat)
  then have z: "\<bar>of_nat (100 * m * 2 ^ nat e) / 100 - float_magnitude (Finite s m e)\<bar> = 0"
    by (simp only: float_magnitude.simps)
  have le: "\<bar>of_nat (100 * m * 2 ^ nat e) / 100 - float_magnitude (Finite s m e)\<bar> \<le> 1 / 200"
    unfolding z by simp
  have tie: "\<bar>of_nat (100 * m * 2 ^ nat e) / 100 - float_magnitude (Finite s m e)\<bar> = 1 / 200
      \<longrightarrow> even (100 * m * 2 ^ nat e)"
    unfolding z by simp
  from True have "ieee_format_2f (Finite s m e) = two_decimals s (100 * m * 2 ^ nat e)"
    by simp
  with le tie show ?thesis by blast
next
  case False
  define d :: nat where "d = 2 ^ nat (- e)"
  define k where "k = round_half_even (100 * m) d"
  have d: "0 < d" by (simp add: d_def)
  from False have p: "(2::rat) powi e = 1 / of_nat d"
    by (simp add: power_int_def d_def inverse_eq_divide power_one_over)
  have eq: "of_nat k / 100 - (of_nat m :: rat) * 2 powi e
      = (of_nat k - (of_nat (100 * m) :: rat) / of_nat d) / 100"
    by (simp add: p field_simps)
  have "\<bar>of_nat k - (of_nat (100 * m) :: rat) / of_nat d\<bar> \<le> 1 / 2"
    unfolding k_def by (rule round_half_even_rat [OF d])
  then have le: "\<bar>of_nat k / 100 - (of_nat m :: rat) * 2 powi e\<bar> \<le> 1 / 200"
    unfolding eq by (simp add: abs_divide)
  have tie: "even k" if "\<bar>of_nat k / 100 - (of_nat m :: rat) * 2 powi e\<bar> = 1 / 200"
  proof -
    from that have "\<bar>of_nat k - (of_nat (100 * m) :: rat) / of_nat d\<bar> = 1 / 2"
      unfolding eq by (simp add: abs_divide)
    then show ?thesis unfolding k_def by (rule round_half_even_rat_tie [OF d])
  qed
  from False have "ieee_format_2f (Finite s m e) = two_decimals s k"
    by (simp add: k_def d_def)
  with le tie show ?thesis by (intro exI [of _ k]) simp
qed

text \<open>An integer below \<open>2 ^ 53\<close> in absolute value is a double, and prints as its digits
  followed by \<^verbatim>\<open>.00\<close>.\<close>

lemma bitlen_le:
  assumes "n < 2 ^ k"
  shows "bitlen n \<le> k"
proof (cases "n = 0")
  case True
  then show ?thesis by (simp add: bitlen.simps)
next
  case False
  then have "2 ^ (bitlen n - 1) \<le> n" using bitlen_lower [of n] by simp
  from this assms have "(2::nat) ^ (bitlen n - 1) < 2 ^ k" by (rule le_less_trans)
  then have "bitlen n - 1 < k" by (rule power_less_imp_less_exp [rotated]) simp
  then show ?thesis by simp
qed

lemma dec_nat_times_100:
  "two_decimals s (100 * n) = (if s then str ''-'' else []) @ dec_nat n @ str ''.00''"
  by (simp add: two_decimals_def str_def)

lemma ieee_of_int_small:
  assumes "\<bar>j\<bar> < 2 ^ 53"
  shows "\<exists>g. ieee_of_int j = Inr g \<and> ieee_format_2f g = str_of_int j @ str ''.00''"
proof -
  define n where "n = nat \<bar>j\<bar>"
  define p where "p = 53 - bitlen n"
  from assms have "n < 2 ^ 53" by (simp add: n_def nat_less_iff)
  then have b: "bitlen n \<le> 53" by (rule bitlen_le)
  then have q: "max (int (bitlen n) - 1 + 0) (- 1022) - 52 = - int p"
    by (simp add: p_def)
  have "round_to_double (j < 0) n 0 =
      (let q = - int p;
           m = (if q \<le> 0 then n * 2 ^ nat (0 - q) else round_half_even n (2 ^ nat (q - 0)))
       in if 971 < q \<or> (q = 971 \<and> m = 2 ^ 53) then Infinity (j < 0) else Finite (j < 0) m q)"
    by (simp only: round_to_double_def q)
  then have g: "round_to_double (j < 0) n 0 = Finite (j < 0) (n * 2 ^ p) (- int p)"
    by (simp add: Let_def)
  have "ieee_format_2f (Finite (j < 0) (n * 2 ^ p) (- int p)) = two_decimals (j < 0) (100 * n)"
  proof (cases "p = 0")
    case True
    then show ?thesis by simp
  next
    case False
    have "round_half_even (100 * (n * 2 ^ p)) (2 ^ p) = 100 * n"
      by (simp add: round_half_even_def)
    with False show ?thesis by simp
  qed
  also have "\<dots> = str_of_int j @ str ''.00''"
    by (simp add: dec_nat_times_100 str_of_int_def n_def str_def)
  finally have "ieee_format_2f (Finite (j < 0) (n * 2 ^ p) (- int p)) = str_of_int j @ str ''.00''" .
  moreover have "ieee_of_int j = Inr (Finite (j < 0) (n * 2 ^ p) (- int p))"
    using g by (simp add: ieee_of_int_def n_def)
  ultimately show ?thesis by blast
qed

lemma ieee_of_int_raises: "ieee_of_int j = Inl err \<Longrightarrow> err = OverflowError"
  by (auto simp add: ieee_of_int_def split: pyfloat.splits)

text \<open>The scaled field under CPython's floats.\<close>

lemma scaled_float_text:
  "and_then (py_mul_int (cpython repr) (PFloat t) 1000) (py_format_2f (cpython repr))
     = Inr (ieee_format_2f (ieee_mul t (Finite False 8796093022208000 (- 43))))"
  by (simp add: cpython_def ieee_of_int_1000 and_then_def)

lemma scaled_int_text:
  "and_then (py_mul_int (cpython repr) (PInt i) 1000) (py_format_2f (cpython repr))
     = (case ieee_of_int (i * 1000) of Inl err \<Rightarrow> Inl err | Inr g \<Rightarrow> Inr (ieee_format_2f g))"
  by (simp add: cpython_def and_then_def)

text \<open>The double of \<^verbatim>\<open>1.0438749999999999\<close>: the product with \<open>1000\<close> is rounded up to
  \<open>1043.875\<close>, a tie of \<^verbatim>\<open>'.2f'\<close>. The double of \<^verbatim>\<open>1e306\<close>: the product is beyond the largest
  double. The integer \<open>2 ^ 1024\<close> has no double.\<close>

lemma near_tie_sample:
  "ieee_mul (Finite False 73456172828459 (- 46)) (Finite False 8796093022208000 (- 43))
     = Finite False 4591010801778688 (- 42)"
  by (simp add: round_to_double_def bitlen.simps round_half_even_def Let_def)

lemma near_tie_sample_text:
  "ieee_format_2f (Finite False 4591010801778688 (- 42)) = str ''1043.88''"
  by (simp add: round_half_even_def two_decimals_def dec_nat.simps str_def)

lemma overflow_sample:
  "ieee_mul (Finite False 6413338752028713 964) (Finite False 8796093022208000 (- 43))
     = Infinity False"
  by (simp add: round_to_double_def bitlen.simps round_half_even_def Let_def)

lemma int_overflow_sample: "ieee_of_int (2 ^ 1024) = Inl OverflowError"
  by (simp add: ieee_of_int_def round_to_double_def bitlen.simps Let_def)

section \<open>The cells one by one\<close>

lemma not_deployment_model_env: "\<not> deployment_call ev \<Longrightarrow> model_env_is cfg ev"
  by (cases ev) simp_all

lemma emits_pip: "emits (\<lambda>ev. \<not> deployment_call ev) cell_pip_install"
  unfolding cell_pip_install_def by (rule emits_call) simp

lemma emits_session: "emits (\<lambda>ev. \<not> deployment_call ev) (cell_session rt w)"
  unfolding cell_session_def resolve_role_def iam_fallback_def
  apply simp
  apply (intro emits_bind emits_try emits_call emits_print emits_ret emits_lift)
  apply simp_all
  done

lemma emits_image: "emits (\<lambda>ev. \<not> deployment_call ev) (cell_image r)"
  unfolding cell_image_def
  by (intro emits_bind emits_print emits_ret) simp

lemma assert_token_set_cases:
  "map_of cfg (str ''HUGGING_FACE_HUB_TOKEN'') = Some v \<Longrightarrow>
   assert_token_set cfg =
     (if v \<noteq> PStr token_placeholder then Inr ()
      else Inl (AssertionError (str ''Please set your Hugging Face Hub token'')))"
  by (simp add: assert_token_set_def and_then_def)

lemma cell_model_placeholder:
  "map_of cfg (str ''HUGGING_FACE_HUB_TOKEN'') = Some (PStr token_placeholder) \<Longrightarrow>
   cell_model w cfg role image_uri tr =
     (Inl (AssertionError (str ''Please set your Hugging Face Hub token'')), tr)"
  by (simp add: cell_model_def assert_token_set_cases io_bind_def io_lift_def)

lemma cell_model_token_set:
  "map_of cfg (str ''HUGGING_FACE_HUB_TOKEN'') = Some v \<Longrightarrow> v \<noteq> PStr token_placeholder \<Longrightarrow>
   cell_model w cfg role image_uri tr =
     (HuggingFaceModel w role image_uri cfg, tr @ [NewHuggingFaceModel role image_uri cfg])"
  by (simp add: cell_model_def assert_token_set_cases io_bind_def io_lift_def call_def)

lemma emits_model: "emits (model_env_is cfg) (cell_model w cfg role image_uri)"
  unfolding cell_model_def
  by (intro emits_bind emits_lift emits_call) simp

lemma cell_summary_cases:
  "cell_summary rt w tr =
     (case glob_glob w summary_pattern of
        [] \<Rightarrow> (Inl IndexError, tr @ [GlobCall summary_pattern])
      | path # others \<Rightarrow>
          (case open_json_load w path of
             Inl e \<Rightarrow> (Inl e, tr @ [GlobCall summary_pattern, OpenFile path])
           | Inr data \<Rightarrow> print_summary rt data (tr @ [GlobCall summary_pattern, OpenFile path])))"
  by (simp add: cell_summary_def io_bind_def call_def io_raise_def io_ret_def
      split: list.splits sum.splits)

lemma print_summary_first_line:
  "\<exists>r rest. print_summary rt data tr = (r, tr @ Print (str ''Concurrent requests: 25'') # rest)"
  unfolding print_summary_def
  apply (rule io_bind_print_first [where P = "\<lambda>ev. True"])
  apply (intro emits_bind emits_lift emits_print)
       apply simp_all
  done

lemma print_summary_fourth_line:
  assumes "getitem_str data (str ''mean_input_tokens'') = Inr a"
    and "getitem_str data (str ''mean_output_tokens'') = Inr b"
    and "getitem_str data (str ''results_ttft_s_mean'') = Inr v"
    and "and_then (py_mul_int rt v 1000) (py_format_2f rt) = Inr text"
  shows "\<exists>r rest. print_summary rt data tr =
    (r, tr @
      [Print (str ''Concurrent requests: 25''),
       Print (str ''Avg. Input token length: '' @ py_str rt a),
       Print (str ''Avg. Output token length: '' @ py_str rt b),
       Print (str ''Avg. First-Time-To-Token: '' @ text @ str ''ms'')]
      @ rest)"
  using assms
  by (simp add: print_summary_def io_bind_def py_print_def io_lift_def and_then_def
      split: sum.splits)

lemma print_summary_six_lines:
  assumes "getitem_str data (str ''mean_input_tokens'') = Inr a"
    and "getitem_str data (str ''mean_output_tokens'') = Inr b"
    and "getitem_str data (str ''results_ttft_s_mean'') = Inr v"
    and "and_then (py_mul_int rt v 1000) (py_format_2f rt) = Inr text"
    and "getitem_str data (str ''results_mean_output_throughput_token_per_s'') = Inr p"
    and "py_format_2f rt p = Inr ptext"
    and "getitem_str data (str ''results_inter_token_latency_s_mean'') = Inr l"
    and "and_then (py_mul_int rt l 1000) (py_format_2f rt) = Inr ltext"
  shows "print_summary rt data tr =
    (Inr (), tr @
      [Print (str ''Concurrent requests: 25''),
       Print (str ''Avg. Input token length: '' @ py_str rt a),
       Print (str ''Avg. Output token length: '' @ py_str rt b),
       Print (str ''Avg. First-Time-To-Token: '' @ text @ str ''ms''),
       Print (str ''Avg. Thorughput: '' @ ptext @ str '' tokens/sec''),
       Print (str ''Avg. Latency: '' @ ltext @ str ''ms/token'')])"
  using assms
  by (simp add: print_summary_def io_bind_def py_print_def io_lift_def and_then_def)

lemma print_summary_all_fields:
  assumes "getitem_str data (str ''mean_input_tokens'') = Inr a"
    and "getitem_str data (str ''mean_output_tokens'') = Inr b"
    and "getitem_str data (str ''results_ttft_s_mean'') = Inr (PFloat t)"
    and "getitem_str data (str ''results_mean_output_throughput_token_per_s'') = Inr (PFloat p)"
    and "getitem_str data (str ''results_inter_token_latency_s_mean'') = Inr (PFloat l)"
    and "float_of_int rt 1000 = Inr k"
  shows "print_summary rt data tr =
    (Inr (), tr @
      [Print (str ''Concurrent requests: 25''),
       Print (str ''Avg. Input token length: '' @ py_str rt a),
       Print (str ''Avg. Output token length: '' @ py_str rt b),
       Print (str ''Avg. First-Time-To-Token: '' @ float_format_2f rt (float_mul rt t k) @ str ''ms''),
       Print (str ''Avg. Thorughput: '' @ float_format_2f rt p @ str '' tokens/sec''),
       Print (str ''Avg. Latency: '' @ float_format_2f rt (float_mul rt l k) @ str ''ms/token'')])"
  using assms
  by (simp add: print_summary_def io_bind_def py_print_def io_lift_def and_then_def)

lemma emits_summary: "emits (model_env_is cfg) (cell_summary rt w)"
  unfolding cell_summary_def print_summary_def
  apply (intro emits_bind emits_lift emits_call emits_print)
                      apply simp_all
  apply (simp split: list.splits add: emits_ret emits_raise)
  done

lemma emits_run_cells: "emits (model_env_is cfg) (run_cells rt w cfg)"
  unfolding run_cells_def
  apply (rule emits_bind)
   apply (rule emits_mono [OF emits_pip not_deployment_model_env], assumption)
  apply (rule emits_bind)
   apply (rule emits_mono [OF emits_session not_deployment_model_env], assumption)
  apply (simp only: split_paired_all prod.case)
  apply (rule emits_bind)
   apply (rule emits_mono [OF emits_image not_deployment_model_env], assumption)
  apply (rule emits_bind)
   apply (rule emits_model)
  apply (rule emits_bind)
   apply (simp add: cell_deploy_def emits_call)
  apply (rule emits_bind)
   apply (simp add: cell_chat_def)
   apply (intro emits_bind emits_lift emits_call emits_print; simp)
  apply (rule emits_bind)
   apply (simp add: cell_llmperf_install_def)
   apply (intro emits_bind emits_call; simp)
  apply (rule emits_bind)
   apply (simp add: cell_benchmark_def emits_call)
  apply (rule emits_bind)
   apply (rule emits_summary)
  apply (simp add: cell_cleanup_def)
  apply (intro emits_bind emits_call; simp)
  done

lemma run_cells_placeholder_emits:
  assumes "map_of cfg (str ''HUGGING_FACE_HUB_TOKEN'') = Some (PStr token_placeholder)"
  shows "emits (\<lambda>ev. \<not> deployment_call ev) (run_cells rt w cfg)"
proof -
  have stop: "\<And>role image_uri rest tr. \<exists>e.
      io_bind (cell_model w cfg role image_uri) rest tr = (Inl e, tr :: trace)"
    by (simp add: io_bind_def cell_model_placeholder [OF assms])
  show ?thesis
    unfolding run_cells_def
    apply (rule emits_bind)
     apply (rule emits_pip)
    apply (rule emits_bind)
     apply (rule emits_session)
    apply (simp only: split_paired_all prod.case)
    apply (rule emits_bind_raises)
     apply (rule emits_image)
    apply (rule stop)
    done
qed

lemma run_cells_placeholder_raises:
  assumes "map_of cfg (str ''HUGGING_FACE_HUB_TOKEN'') = Some (PStr token_placeholder)"
  shows "always_raises (run_cells rt w cfg)"
proof -
  have "\<And>role image_uri. always_raises (cell_model w cfg role image_uri)"
    by (simp add: always_raises_def cell_model_placeholder [OF assms])
  then show ?thesis
    unfolding run_cells_def
    apply -
    apply (rule always_raises_bind)
    apply (rule always_raises_bind)
    apply (simp only: split_paired_all prod.case)
    apply (rule always_raises_bind)
    apply (rule always_raises_bind_first)
    apply assumption
    done
qed

section \<open>Where an exception of a run comes from\<close>

text \<open>
  Cell by cell: an exception that ends a cell is the exception of one of its calls to the
  outside, or of a subscript, a product or a format applied to what a call returned; for
  the model cell it may also be the exception of the token check.
\<close>

lemma resolve_role_raises:
  assumes "fst (resolve_role w tr) = Inl e"
  shows "sagemaker_get_execution_role w = Inl e
     \<or> boto3_client w (str ''iam'') = Inl e
     \<or> iam_get_role w (str ''sagemaker_execution_role'') = Inl e
     \<or> (\<exists>response. iam_get_role w (str ''sagemaker_execution_role'') = Inr response \<and>
          and_then (getitem_str response (str ''Role'')) (\<lambda>r. getitem_str r (str ''Arn'')) = Inl e)"
  using assms
  by (auto simp add: resolve_role_def try_except_ValueError_def call_def iam_fallback_def
      io_bind_def io_lift_def split: sum.splits py_error.splits prod.splits)

lemma cell_session_raises:
  assumes "fst (cell_session rt w tr) = Inl e"
  shows "sagemaker_Session w None = Inl e
     \<or> sess_default_bucket w = Inl e
     \<or> sagemaker_get_execution_role w = Inl e
     \<or> boto3_client w (str ''iam'') = Inl e
     \<or> iam_get_role w (str ''sagemaker_execution_role'') = Inl e
     \<or> (\<exists>response. iam_get_role w (str ''sagemaker_execution_role'') = Inr response \<and>
          and_then (getitem_str response (str ''Role'')) (\<lambda>r. getitem_str r (str ''Arn'')) = Inl e)
     \<or> (\<exists>bucket. sagemaker_Session w (Some bucket) = Inl e)"
proof -
  from assms have "fst (io_bind (call (NewSession None) (sagemaker_Session w None)) (\<lambda>sess.
     io_bind (call DefaultBucket (sess_default_bucket w)) (\<lambda>sagemaker_session_bucket.
     io_bind (resolve_role w) (\<lambda>role.
     io_bind (call (NewSession (Some sagemaker_session_bucket))
                (sagemaker_Session w (Some sagemaker_session_bucket))) (\<lambda>boto_region_name.
     io_bind (py_print (str ''sagemaker role arn: '' @ py_str rt role)) (\<lambda>_.
     io_bind (py_print (str ''sagemaker session region: '' @ boto_region_name)) (\<lambda>_.
     io_ret (role, boto_region_name))))))) tr) = Inl e"
    by (simp add: cell_session_def)
  then show ?thesis
    apply -
    apply (drule io_bind_raises)
    apply (erule disjE)
     apply (simp add: call_def)
    apply (elim exE conjE)
    apply (drule io_bind_raises)
    apply (erule disjE)
     apply (simp add: call_def)
    apply (elim exE conjE)
    apply (drule io_bind_raises)
    apply (erule disjE)
     apply (drule resolve_role_raises)
     apply blast
    apply (elim exE conjE)
    apply (drule io_bind_raises)
    apply (erule disjE)
     apply (simp add: call_def)
     apply blast
    apply (elim exE conjE)
    apply (simp add: io_bind_def py_print_def io_ret_def)
    done
qed

lemma print_summary_raises:
  assumes "fst (print_summary rt data tr) = Inl e"
  shows "getitem_str data (str ''mean_input_tokens'') = Inl e
     \<or> getitem_str data (str ''mean_output_tokens'') = Inl e
     \<or> and_then (getitem_str data (str ''results_ttft_s_mean''))
          (\<lambda>v. and_then (py_mul_int rt v 1000) (py_format_2f rt)) = Inl e
     \<or> and_then (getitem_str data (str ''results_mean_output_throughput_token_per_s''))
          (py_format_2f rt) = Inl e
     \<or> and_then (getitem_str data (str ''results_inter_token_latency_s_mean''))
          (\<lambda>v. and_then (py_mul_int rt v 1000) (py_format_2f rt)) = Inl e"
  using assms
  by (auto simp add: print_summary_def io_bind_def py_print_def io_lift_def
      split: sum.splits prod.splits)

lemma cell_summary_raises:
  assumes "fst (cell_summary rt w tr) = Inl e"
  shows "(glob_glob w summary_pattern = [] \<and> e = IndexError)
     \<or> (\<exists>path others. glob_glob w summary_pattern = path # others \<and>
          open_json_load w path = Inl e)
     \<or> (\<exists>path others data. glob_glob w summary_pattern = path # others \<and>
          open_json_load w path = Inr data \<and>
          (getitem_str data (str ''mean_input_tokens'') = Inl e
           \<or> getitem_str data (str ''mean_output_tokens'') = Inl e
           \<or> and_then (getitem_str data (str ''results_ttft_s_mean''))
                (\<lambda>v. and_then (py_mul_int rt v 1000) (py_format_2f rt)) = Inl e
           \<or> and_then (getitem_str data (str ''results_mean_output_throughput_token_per_s''))
                (py_format_2f rt) = Inl e
           \<or> and_then (getitem_str data (str ''results_inter_token_latency_s_mean''))
                (\<lambda>v. and_then (py_mul_int rt v 1000) (py_format_2f rt)) = Inl e))"
proof (cases "glob_glob w summary_pattern")
  case Nil
  with assms show ?thesis by (simp add: cell_summary_cases)
next
  case (Cons path others)
  show ?thesis
  proof (cases "open_json_load w path")
    case (Inl e')
    with Cons assms show ?thesis by (simp add: cell_summary_cases)
  next
    case (Inr data)
    with Cons assms
    have "fst (print_summary rt data (tr @ [GlobCall summary_pattern, OpenFile path])) = Inl e"
      by (simp add: cell_summary_cases)
    from print_summary_raises [OF this] Cons Inr show ?thesis by simp
  qed
qed

lemma cell_chat_raises:
  assumes "fst (cell_chat rt w msgs params tr) = Inl e"
  shows "llm_predict w (request_payload msgs params) = Inl e
     \<or> (\<exists>chat. llm_predict w (request_payload msgs params) = Inr chat \<and>
          extract_content chat = Inl e)"
  using assms
  by (auto simp add: cell_chat_def io_bind_def call_def io_lift_def py_print_def
      split: sum.splits prod.splits)

lemma cell_model_raises:
  assumes "fst (cell_model w cfg role image_uri tr) = Inl e"
  shows "assert_token_set cfg = Inl e \<or> HuggingFaceModel w role image_uri cfg = Inl e"
  using assms
  by (auto simp add: cell_model_def io_bind_def call_def io_lift_def split: sum.splits prod.splits)

lemma cell_cleanup_raises:
  assumes "fst (cell_cleanup w tr) = Inl e"
  shows "llm_delete_model w = Inl e \<or> llm_delete_endpoint w = Inl e"
  using assms
  by (auto simp add: cell_cleanup_def io_bind_def call_def split: sum.splits prod.splits)

lemma run_cells_raises:
  assumes "fst (run_cells rt w cfg tr) = Inl e"
  shows "assert_token_set cfg = Inl e
     \<or> sagemaker_Session w None = Inl e
     \<or> sess_default_bucket w = Inl e
     \<or> sagemaker_get_execution_role w = Inl e
     \<or> boto3_client w (str ''iam'') = Inl e
     \<or> iam_get_role w (str ''sagemaker_execution_role'') = Inl e
     \<or> (\<exists>response. iam_get_role w (str ''sagemaker_execution_role'') = Inr response \<and>
          and_then (getitem_str response (str ''Role'')) (\<lambda>r. getitem_str r (str ''Arn'')) = Inl e)
     \<or> (\<exists>bucket. sagemaker_Session w (Some bucket) = Inl e)
     \<or> (\<exists>role image_uri. HuggingFaceModel w role image_uri cfg = Inl e)
     \<or> llm_model_deploy w 1 instance_type health_check_timeout = Inl e
     \<or> llm_predict w (request_payload messages parameters) = Inl e
     \<or> (\<exists>chat. llm_predict w (request_payload messages parameters) = Inr chat \<and>
          extract_content chat = Inl e)
     \<or> (glob_glob w summary_pattern = [] \<and> e = IndexError)
     \<or> (\<exists>path others. glob_glob w summary_pattern = path # others \<and>
          open_json_load w path = Inl e)
     \<or> (\<exists>path others data. glob_glob w summary_pattern = path # others \<and>
          open_json_load w path = Inr data \<and>
          (getitem_str data (str ''mean_input_tokens'') = Inl e
           \<or> getitem_str data (str ''mean_output_tokens'') = Inl e
           \<or> and_then (getitem_str data (str ''results_ttft_s_mean''))
                (\<lambda>v. and_then (py_mul_int rt v 1000) (py_format_2f rt)) = Inl e
           \<or> and_then (getitem_str data (str ''results_mean_output_throughput_token_per_s''))
                (py_format_2f rt) = Inl e
           \<or> and_then (getitem_str data (str ''results_inter_token_latency_s_mean''))
                (\<lambda>v. and_then (py_mul_int rt v 1000) (py_format_2f rt)) = Inl e))
     \<or> llm_delete_model w = Inl e
     \<or> llm_delete_endpoint w = Inl e"
proof -
  have pip: "fst (cell_pip_install t) \<noteq> Inl e" for t
    by (simp add: cell_pip_install_def call_def)
  have image: "fst (cell_image r t) \<noteq> Inl e" for r t
    by (simp add: cell_image_def io_bind_def py_print_def io_ret_def)
  have install: "fst (cell_llmperf_install t) \<noteq> Inl e" for t
    by (simp add: cell_llmperf_install_def io_bind_def call_def)
  have bench: "fst (cell_benchmark n t) \<noteq> Inl e" for n t
    by (simp add: cell_benchmark_def call_def)
  have deploy: "fst (cell_deploy w t) = Inl e \<Longrightarrow>
      llm_model_deploy w 1 instance_type health_check_timeout = Inl e" for t
    by (simp add: cell_deploy_def call_def)
  from assms show ?thesis
    unfolding run_cells_def
    apply -
    apply (drule io_bind_raises)
    apply (erule disjE)
     apply (simp add: pip)
    apply (elim exE conjE)
    apply (drule io_bind_raises)
    apply (erule disjE)
     apply (drule cell_session_raises)
     apply blast
    apply (elim exE conjE)
    apply (simp only: split_paired_all prod.case)
    apply (drule io_bind_raises)
    apply (erule disjE)
     apply (simp add: image)
    apply (elim exE conjE)
    apply (drule io_bind_raises)
    apply (erule disjE)
     apply (drule cell_model_raises)
     apply blast
    apply (elim exE conjE)
    apply (drule io_bind_raises)
    apply (erule disjE)
     apply (drule deploy)
     apply blast
    apply (elim exE conjE)
    apply (drule io_bind_raises)
    apply (erule disjE)
     apply (drule cell_chat_raises)
     apply blast
    apply (elim exE conjE)
    apply (drule io_bind_raises)
    apply (erule disjE)
     apply (simp add: install)
    apply (elim exE conjE)
    apply (drule io_bind_raises)
    apply (erule disjE)
     apply (simp add: bench)
    apply (elim exE conjE)
    apply (drule io_bind_raises)
    apply (erule disjE)
     apply (drule cell_summary_raises)
     apply blast
    apply (elim exE conjE)
    apply (drule cell_cleanup_raises)
    apply blast
    done
qed

text \<open>A value is extracted only from a list of choices whose first element has a
  message with a string content.\<close>

lemma getitem_int_first:
  assumes "getitem_int ch 0 = Inr x"
  shows "(\<exists>others. ch = PList (x # others)) \<or> (\<exists>c s. ch = PStr (c # s) \<and> x = PStr [c])"
proof (cases ch)
  case (PList xs)
  with assms show ?thesis by (cases xs) (simp_all add: list_index_def)
next
  case (PStr s)
  with assms show ?thesis by (cases s) (simp_all add: list_index_def)
qed (use assms in simp_all)

lemma extract_content_success:
  assumes "extract_content chat = Inr r"
  shows "\<exists>first others message c.
           getitem_str chat (str ''choices'') = Inr (PList (first # others)) \<and>
           getitem_str first (str ''message'') = Inr message \<and>
           getitem_str message (str ''content'') = Inr (PStr c) \<and>
           r = PStr (py_strip c)"
proof -
  from assms obtain ch x message content where
    1: "getitem_str chat (str ''choices'') = Inr ch" and
    2: "getitem_int ch 0 = Inr x" and
    3: "getitem_str x (str ''message'') = Inr message" and
    4: "getitem_str message (str ''content'') = Inr content" and
    5: "call_strip content = Inr r"
    by (auto simp add: extract_content_def and_then_def split: sum.splits)
  from 5 obtain c where c: "content = PStr c" "r = PStr (py_strip c)"
    by (cases content) auto
  from getitem_int_first [OF 2] 3 obtain others where "ch = PList (x # others)"
    by auto
  with 1 3 4 c show ?thesis by blast
qed

section \<open>A complete run\<close>

text \<open>
  With a token filled in, under CPython's floats and in the world where every call
  succeeds, the notebook runs to its last cell. The printed lines of the summary are the
  ones recorded in the notebook.
\<close>

lemma run_with_token_set:
  "run_cells (cpython repr) world_ok (config_with_token (str ''hf_example'')) [] =
     (Inr (),
      [Shell pip_install_command,
       NewSession None, DefaultBucket, GetExecutionRole,
       NewSession (Some (PStr (str ''sagemaker-us-east-1-123456789012''))),
       Print (str ''sagemaker role arn: arn:aws:iam::123456789012:role/notebook''),
       Print (str ''sagemaker session region: us-east-1''),
       Print (str ''llm image uri: 763104351884.dkr.ecr.us-east-1.amazonaws.com/huggingface-pytorch-tgi-inference:2.1-tgi2.0-gpu-py310-cu121-ubuntu22.04''),
       NewHuggingFaceModel (PStr (str ''arn:aws:iam::123456789012:role/notebook''))
         (llm_image (str ''us-east-1'')) (config_with_token (str ''hf_example'')),
       Deploy 1 (str ''ml.p4d.24xlarge'') 900,
       Predict (request_payload messages parameters),
       Print (str ''Deep learning is a subset of machine learning.''),
       Shell (str ''git clone https://github.com/philschmid/llmperf.git''),
       Shell (str ''pip install -e llmperf/''),
       Shell (benchmark_command (str ''llama3-endpoint'')),
       GlobCall (str ''results/*summary.json''),
       OpenFile (str ''results/llama3_550_150_summary.json''),
       Print (str ''Concurrent requests: 25''),
       Print (str ''Avg. Input token length: 550''),
       Print (str ''Avg. Output token length: 150''),
       Print (str ''Avg. First-Time-To-Token: 1301.28ms''),
       Print (str ''Avg. Thorughput: 1116.25 tokens/sec''),
       Print (str ''Avg. Latency: 10.45ms/token''),
       DeleteModel, DeleteEndpoint])"
proof -
  have pip: "cell_pip_install tr = (Inr (), tr @ [Shell pip_install_command])" for tr
    by (simp add: cell_pip_install_def call_def)
  have session: "cell_session (cpython repr) world_ok tr =
     (Inr (PStr (str ''arn:aws:iam::123456789012:role/notebook''), str ''us-east-1''),
      tr @
      [NewSession None, DefaultBucket, GetExecutionRole,
       NewSession (Some (PStr (str ''sagemaker-us-east-1-123456789012''))),
       Print (str ''sagemaker role arn: arn:aws:iam::123456789012:role/notebook''),
       Print (str ''sagemaker session region: us-east-1'')])" for tr
    by (simp add: cell_session_def resolve_role_def
        try_except_ValueError_def io_bind_def call_def py_print_def io_ret_def world_ok_def str_def)
  have image: "cell_image (str ''us-east-1'') tr =
      (Inr (llm_image (str ''us-east-1'')),
       tr @ [Print (str ''llm image uri: 763104351884.dkr.ecr.us-east-1.amazonaws.com/huggingface-pytorch-tgi-inference:2.1-tgi2.0-gpu-py310-cu121-ubuntu22.04'')])" for tr
    by (simp add: llm_image_def cell_image_def io_bind_def py_print_def io_ret_def str_def)
  have tok: "PStr (str ''hf_example'') \<noteq> PStr token_placeholder"
    by (simp add: token_placeholder_def str_def)
  have model: "cell_model world_ok (config_with_token (str ''hf_example'')) r i tr =
      (Inr (), tr @ [NewHuggingFaceModel r i (config_with_token (str ''hf_example''))])" for r i tr
    using cell_model_token_set [OF config_token tok, of world_ok r i tr]
    by (simp add: world_ok_def)
  have deploy: "cell_deploy world_ok tr =
      (Inr (str ''llama3-endpoint''), tr @ [Deploy 1 (str ''ml.p4d.24xlarge'') 900])" for tr
    by (simp add: cell_deploy_def call_def world_ok_def instance_type_def health_check_timeout_def)
  have chat: "cell_chat (cpython repr) world_ok messages parameters tr =
      (Inr (), tr @ [Predict (request_payload messages parameters),
                     Print (str ''Deep learning is a subset of machine learning.'')])" for tr
    by (simp add: cell_chat_def io_bind_def call_def io_lift_def py_print_def world_ok_def
        chat_response_def extract_content_def and_then_def list_index_def py_strip_def
        py_isspace_def str_def)
  have install: "cell_llmperf_install tr =
      (Inr (), tr @ [Shell (str ''git clone https://github.com/philschmid/llmperf.git''),
                     Shell (str ''pip install -e llmperf/'')])" for tr
    by (simp add: cell_llmperf_install_def io_bind_def call_def)
  have bench: "cell_benchmark n tr = (Inr (), tr @ [Shell (benchmark_command n)])" for n tr
    by (simp add: cell_benchmark_def call_def)
  have fields:
    "getitem_str summary_data (str ''mean_input_tokens'') = Inr (PInt 550)"
    "getitem_str summary_data (str ''mean_output_tokens'') = Inr (PInt 150)"
    "getitem_str summary_data (str ''results_ttft_s_mean'')
       = Inr (PFloat (Finite False 5860444123104679 (- 52)))"
    "getitem_str summary_data (str ''results_mean_output_throughput_token_per_s'')
       = Inr (PFloat (Finite False 4465 (- 2)))"
    "getitem_str summary_data (str ''results_inter_token_latency_s_mean'')
       = Inr (PFloat (Finite False 6024014861570775 (- 59)))"
    by (simp_all add: summary_data_def str_def)
  have thousand: "float_of_int (cpython repr) 1000 = Inr (Finite False 8796093022208000 (- 43))"
    by (simp add: cpython_def ieee_of_int_1000)
  have texts: "py_str (cpython repr) (PInt 550) = str ''550''"
    "py_str (cpython repr) (PInt 150) = str ''150''"
    by (simp_all add: str_of_int_def dec_nat.simps str_def)
  have select: "float_format_2f (cpython repr) = ieee_format_2f"
    "float_mul (cpython repr) = ieee_mul"
    by (simp_all add: cpython_def)
  have "print_summary (cpython repr) summary_data tr =
      (Inr (), tr @
        [Print (str ''Concurrent requests: 25''),
         Print (str ''Avg. Input token length: '' @ py_str (cpython repr) (PInt 550)),
         Print (str ''Avg. Output token length: '' @ py_str (cpython repr) (PInt 150)),
         Print (str ''Avg. First-Time-To-Token: '' @
                float_format_2f (cpython repr)
                  (float_mul (cpython repr) (Finite False 5860444123104679 (- 52))
                     (Finite False 8796093022208000 (- 43))) @ str ''ms''),
         Print (str ''Avg. Thorughput: '' @
                float_format_2f (cpython repr) (Finite False 4465 (- 2)) @ str '' tokens/sec''),
         Print (str ''Avg. Latency: '' @
                float_format_2f (cpython repr)
                  (float_mul (cpython repr) (Finite False 6024014861570775 (- 59))
                     (Finite False 8796093022208000 (- 43))) @ str ''ms/token'')])" for tr
    by (rule print_summary_all_fields [OF fields thousand])
  then have printed: "print_summary (cpython repr) summary_data tr =
      (Inr (), tr @
        [Print (str ''Concurrent requests: 25''),
         Print (str ''Avg. Input token length: 550''),
         Print (str ''Avg. Output token length: 150''),
         Print (str ''Avg. First-Time-To-Token: 1301.28ms''),
         Print (str ''Avg. Thorughput: 1116.25 tokens/sec''),
         Print (str ''Avg. Latency: 10.45ms/token'')])" for tr
    by (simp only: select texts ttft_sample ttft_sample_text latency_sample throughput_sample)
       (simp add: str_def)
  have summary: "cell_summary (cpython repr) world_ok tr =
      (Inr (), tr @
        [GlobCall (str ''results/*summary.json''),
         OpenFile (str ''results/llama3_550_150_summary.json''),
         Print (str ''Concurrent requests: 25''),
         Print (str ''Avg. Input token length: 550''),
         Print (str ''Avg. Output token length: 150''),
         Print (str ''Avg. First-Time-To-Token: 1301.28ms''),
         Print (str ''Avg. Thorughput: 1116.25 tokens/sec''),
         Print (str ''Avg. Latency: 10.45ms/token'')])" for tr
    by (simp add: cell_summary_cases world_ok_def summary_pattern_def printed)
  have cleanup: "cell_cleanup world_ok tr = (Inr (), tr @ [DeleteModel, DeleteEndpoint])" for tr
    by (simp add: cell_cleanup_def io_bind_def call_def world_ok_def)
  show ?thesis
    by (simp add: run_cells_def io_bind_def pip session image model deploy chat install bench
        summary cleanup)
qed

text \<open>Without a result file the same run stops at the summary cell.\<close>

lemma run_without_results:
  "run_cells rt world_no_results (config_with_token (str ''hf_example'')) [] =
     (Inl IndexError,
      [Shell pip_install_command,
       NewSession None, DefaultBucket, GetExecutionRole,
       NewSession (Some (PStr (str ''sagemaker-us-east-1-123456789012''))),
       Print (str ''sagemaker role arn: arn:aws:iam::123456789012:role/notebook''),
       Print (str ''sagemaker session region: us-east-1''),
       Print (str ''llm image uri: 763104351884.dkr.ecr.us-east-1.amazonaws.com/huggingface-pytorch-tgi-inference:2.1-tgi2.0-gpu-py310-cu121-ubuntu22.04''),
       NewHuggingFaceModel (PStr (str ''arn:aws:iam::123456789012:role/notebook''))
         (llm_image (str ''us-east-1'')) (config_with_token (str ''hf_example'')),
       Deploy 1 (str ''ml.p4d.24xlarge'') 900,
       Predict (request_payload messages parameters),
       Print (str ''Deep learning is a subset of machine learning.''),
       Shell (str ''git clone https://github.com/philschmid/llmperf.git''),
       Shell (str ''pip install -e llmperf/''),
       Shell (benchmark_command (str ''llama3-endpoint'')),
       GlobCall (str ''results/*summary.json'')])"
proof -
  have pip: "cell_pip_install tr = (Inr (), tr @ [Shell pip_install_command])" for tr
    by (simp add: cell_pip_install_def call_def)
  have session: "cell_session rt world_no_results tr =
     (Inr (PStr (str ''arn:aws:iam::123456789012:role/notebook''), str ''us-east-1''),
      tr @
      [NewSession None, DefaultBucket, GetExecutionRole,
       NewSession (Some (PStr (str ''sagemaker-us-east-1-123456789012''))),
       Print (str ''sagemaker role arn: arn:aws:iam::123456789012:role/notebook''),
       Print (str ''sagemaker session region: us-east-1'')])" for tr
    by (simp add: cell_session_def resolve_role_def try_except_ValueError_def io_bind_def
        call_def py_print_def io_ret_def world_no_results_def world_ok_def str_def)
  have image: "cell_image (str ''us-east-1'') tr =
      (Inr (llm_image (str ''us-east-1'')),
       tr @ [Print (str ''llm image uri: 763104351884.dkr.ecr.us-east-1.amazonaws.com/huggingface-pytorch-tgi-inference:2.1-tgi2.0-gpu-py310-cu121-ubuntu22.04'')])" for tr
    by (simp add: llm_image_def cell_image_def io_bind_def py_print_def io_ret_def str_def)
  have tok: "PStr (str ''hf_example'') \<noteq> PStr token_placeholder"
    by (simp add: token_placeholder_def str_def)
  have model: "cell_model world_no_results (config_with_token (str ''hf_example'')) r i tr =
      (Inr (), tr @ [NewHuggingFaceModel r i (config_with_token (str ''hf_example''))])" for r i tr
    using cell_model_token_set [OF config_token tok, of world_no_results r i tr]
    by (simp add: world_no_results_def world_ok_def)
  have deploy: "cell_deploy world_no_results tr =
      (Inr (str ''llama3-endpoint''), tr @ [Deploy 1 (str ''ml.p4d.24xlarge'') 900])" for tr
    by (simp add: cell_deploy_def call_def world_no_results_def world_ok_def instance_type_def
        health_check_timeout_def)
  have chat: "cell_chat rt world_no_results messages parameters tr =
      (Inr (), tr @ [Predict (request_payload messages parameters),
                     Print (str ''Deep learning is a subset of machine learning.'')])" for tr
    by (simp add: cell_chat_def io_bind_def call_def io_lift_def py_print_def
        world_no_results_def world_ok_def
        chat_response_def extract_content_def and_then_def list_index_def py_strip_def
        py_isspace_def str_def)
  have install: "cell_llmperf_install tr =
      (Inr (), tr @ [Shell (str ''git clone https://github.com/philschmid/llmperf.git''),
                     Shell (str ''pip install -e llmperf/'')])" for tr
    by (simp add: cell_llmperf_install_def io_bind_def call_def)
  have bench: "cell_benchmark n tr = (Inr (), tr @ [Shell (benchmark_command n)])" for n tr
    by (simp add: cell_benchmark_def call_def)
  have summary: "cell_summary rt world_no_results tr =
      (Inl IndexError, tr @ [GlobCall (str ''results/*summary.json'')])" for tr
    by (simp add: cell_summary_cases world_no_results_def summary_pattern_def)
  show ?thesis
    by (simp add: run_cells_def io_bind_def pip session image model deploy chat install bench
        summary)
qed

section \<open>The claims\<close>

subsection \<open>C1: the token check\<close>

text \<open>
  C1. Whenever the configuration's \<^verbatim>\<open>HUGGING_FACE_HUB_TOKEN\<close> entry is the placeholder
  \<^verbatim>\<open><REPLACE WITH YOUR TOKEN>\<close>, the cell raises \<^verbatim>\<open>AssertionError\<close> and leaves the trace as it
  found it: no model object is created, and a run of the notebook with such a
  configuration never reaches the constructor or \<^verbatim>\<open>deploy\<close>. It is the only check: with
  any other value under that key the cell goes straight to the constructor, with the
  configuration as it is. And whatever the entry, from whatever trace, an exception that
  ends a run of the notebook is this \<^verbatim>\<open>AssertionError\<close>, raised for the placeholder, or else
  the exception of a call to the outside (the sessions, the bucket, the role lookups, the
  constructor, \<^verbatim>\<open>deploy\<close>, \<^verbatim>\<open>predict\<close>, the summary file, the two deletions) or of a
  subscript, a product or a format applied to what such a call returned (the IAM
  response, the chat completion, the list of result files, the summary): no other step
  of the run rejects anything.
\<close>

theorem token_check_is_the_only_guard:
  assumes "map_of cfg (str ''HUGGING_FACE_HUB_TOKEN'') = Some v"
  shows "cell_model w cfg role image_uri tr =
           (if v = PStr token_placeholder
            then (Inl (AssertionError (str ''Please set your Hugging Face Hub token'')), tr)
            else (HuggingFaceModel w role image_uri cfg,
                  tr @ [NewHuggingFaceModel role image_uri cfg]))
         \<and> (v = PStr token_placeholder \<longrightarrow>
              list_all (\<lambda>ev. \<not> deployment_call ev) (snd (run_cells rt w cfg [])))
         \<and> (fst (run_cells rt w cfg tr) = Inl e \<longrightarrow>
              (v = PStr token_placeholder \<and>
               e = AssertionError (str ''Please set your Hugging Face Hub token''))
              \<or> sagemaker_Session w None = Inl e
              \<or> sess_default_bucket w = Inl e
              \<or> sagemaker_get_execution_role w = Inl e
              \<or> boto3_client w (str ''iam'') = Inl e
              \<or> iam_get_role w (str ''sagemaker_execution_role'') = Inl e
              \<or> (\<exists>response. iam_get_role w (str ''sagemaker_execution_role'') = Inr response \<and>
                   and_then (getitem_str response (str ''Role''))
                     (\<lambda>r. getitem_str r (str ''Arn'')) = Inl e)
              \<or> (\<exists>bucket. sagemaker_Session w (Some bucket) = Inl e)
              \<or> (\<exists>role image_uri. HuggingFaceModel w role image_uri cfg = Inl e)
              \<or> llm_model_deploy w 1 instance_type health_check_timeout = Inl e
              \<or> llm_predict w (request_payload messages parameters) = Inl e
              \<or> (\<exists>chat. llm_predict w (request_payload messages parameters) = Inr chat \<and>
                   extract_content chat = Inl e)
              \<or> (glob_glob w summary_pattern = [] \<and> e = IndexError)
              \<or> (\<exists>path others. glob_glob w summary_pattern = path # others \<and>
                   open_json_load w path = Inl e)
              \<or> (\<exists>path others data. glob_glob w summary_pattern = path # others \<and>
                   open_json_load w path = Inr data \<and>
                   (getitem_str data (str ''mean_input_tokens'') = Inl e
                    \<or> getitem_str data (str ''mean_output_tokens'') = Inl e
                    \<or> and_then (getitem_str data (str ''results_ttft_s_mean''))
                         (\<lambda>x. and_then (py_mul_int rt x 1000) (py_format_2f rt)) = Inl e
                    \<or> and_then
                         (getitem_str data (str ''results_mean_output_throughput_token_per_s''))
                         (py_format_2f rt) = Inl e
                    \<or> and_then (getitem_str data (str ''results_inter_token_latency_s_mean''))
                         (\<lambda>x. and_then (py_mul_int rt x 1000) (py_format_2f rt)) = Inl e))
              \<or> llm_delete_model w = Inl e
              \<or> llm_delete_endpoint w = Inl e)"
proof (intro conjI impI)
  show "cell_model w cfg role image_uri tr =
           (if v = PStr token_placeholder
            then (Inl (AssertionError (str ''Please set your Hugging Face Hub token'')), tr)
            else (HuggingFaceModel w role image_uri cfg,
                  tr @ [NewHuggingFaceModel role image_uri cfg]))"
    using assms by (simp add: cell_model_placeholder cell_model_token_set)
next
  assume "v = PStr token_placeholder"
  with assms have "map_of cfg (str ''HUGGING_FACE_HUB_TOKEN'') = Some (PStr token_placeholder)"
    by simp
  then show "list_all (\<lambda>ev. \<not> deployment_call ev) (snd (run_cells rt w cfg []))"
    by (simp add: emits_trace [OF run_cells_placeholder_emits])
next
  assume r: "fst (run_cells rt w cfg tr) = Inl e"
  have a: "assert_token_set cfg = Inl e \<Longrightarrow>
      v = PStr token_placeholder \<and>
      e = AssertionError (str ''Please set your Hugging Face Hub token'')"
    using assms by (auto simp add: assert_token_set_def and_then_def split: if_splits)
  from run_cells_raises [OF r] a
  show "(v = PStr token_placeholder \<and>
               e = AssertionError (str ''Please set your Hugging Face Hub token''))
              \<or> sagemaker_Session w None = Inl e
              \<or> sess_default_bucket w = Inl e
              \<or> sagemaker_get_execution_role w = Inl e
              \<or> boto3_client w (str ''iam'') = Inl e
              \<or> iam_get_role w (str ''sagemaker_execution_role'') = Inl e
              \<or> (\<exists>response. iam_get_role w (str ''sagemaker_execution_role'') = Inr response \<and>
                   and_then (getitem_str response (str ''Role''))
                     (\<lambda>r. getitem_str r (str ''Arn'')) = Inl e)
              \<or> (\<exists>bucket. sagemaker_Session w (Some bucket) = Inl e)
              \<or> (\<exists>role image_uri. HuggingFaceModel w role image_uri cfg = Inl e)
              \<or> llm_model_deploy w 1 instance_type health_check_timeout = Inl e
              \<or> llm_predict w (request_payload messages parameters) = Inl e
              \<or> (\<exists>chat. llm_predict w (request_payload messages parameters) = Inr chat \<and>
                   extract_content chat = Inl e)
              \<or> (glob_glob w summary_pattern = [] \<and> e = IndexError)
              \<or> (\<exists>path others. glob_glob w summary_pattern = path # others \<and>
                   open_json_load w path = Inl e)
              \<or> (\<exists>path others data. glob_glob w summary_pattern = path # others \<and>
                   open_json_load w path = Inr data \<and>
                   (getitem_str data (str ''mean_input_tokens'') = Inl e
                    \<or> getitem_str data (str ''mean_output_tokens'') = Inl e
                    \<or> and_then (getitem_str data (str ''results_ttft_s_mean''))
                         (\<lambda>x. and_then (py_mul_int rt x 1000) (py_format_2f rt)) = Inl e
                    \<or> and_then
                         (getitem_str data (str ''results_mean_output_throughput_token_per_s''))
                         (py_format_2f rt) = Inl e
                    \<or> and_then (getitem_str data (str ''results_inter_token_latency_s_mean''))
                         (\<lambda>x. and_then (py_mul_int rt x 1000) (py_format_2f rt)) = Inl e))
              \<or> llm_delete_model w = Inl e
              \<or> llm_delete_endpoint w = Inl e"
    by blast
qed

text \<open>The committed configuration; a configuration with a token, in the world where
  every call succeeds (the run ends without an exception) and in the world without a
  result file (the run ends in the \<^verbatim>\<open>IndexError\<close> of the summary cell).\<close>

theorem token_check_witness:
  "map_of config (str ''HUGGING_FACE_HUB_TOKEN'') = Some (PStr token_placeholder)
   \<and> cell_model world_ok config (PStr (str ''arn:aws:iam::123456789012:role/notebook''))
        (llm_image (str ''us-east-1'')) [] =
       (Inl (AssertionError (str ''Please set your Hugging Face Hub token'')), [])
   \<and> (\<forall>rt. list_all (\<lambda>ev. \<not> deployment_call ev) (snd (run_cells rt world_ok config [])))
   \<and> map_of (config_with_token (str ''hf_example'')) (str ''HUGGING_FACE_HUB_TOKEN'')
       = Some (PStr (str ''hf_example''))
   \<and> cell_model world_ok (config_with_token (str ''hf_example''))
        (PStr (str ''arn:aws:iam::123456789012:role/notebook'')) (llm_image (str ''us-east-1'')) [] =
       (Inr (), [NewHuggingFaceModel (PStr (str ''arn:aws:iam::123456789012:role/notebook''))
                   (llm_image (str ''us-east-1'')) (config_with_token (str ''hf_example''))])
   \<and> (\<forall>rt. fst (run_cells rt world_no_results (config_with_token (str ''hf_example'')) [])
             = Inl IndexError)
   \<and> PStr (str ''hf_example'') \<noteq> PStr token_placeholder
   \<and> glob_glob world_no_results summary_pattern = []
   \<and> (\<forall>repr. fst (run_cells (cpython repr) world_ok (config_with_token (str ''hf_example'')) [])
               = Inr ())"
proof -
  have 1: "map_of config (str ''HUGGING_FACE_HUB_TOKEN'') = Some (PStr token_placeholder)"
    by (simp add: config_def config_with_token_def str_def)
  have 2: "map_of (config_with_token (str ''hf_example'')) (str ''HUGGING_FACE_HUB_TOKEN'')
       = Some (PStr (str ''hf_example''))"
    by (simp add: config_with_token_def str_def)
  have 3: "PStr (str ''hf_example'') \<noteq> PStr token_placeholder"
    by (simp add: token_placeholder_def str_def)
  have 4: "HuggingFaceModel world_ok r i e = Inr ()" for r i e
    by (simp add: world_ok_def)
  have 5: "fst (run_cells rt world_no_results (config_with_token (str ''hf_example'')) [])
             = Inl IndexError" for rt
    by (simp only: run_without_results fst_conv)
  have 6: "fst (run_cells (cpython repr) world_ok (config_with_token (str ''hf_example'')) [])
               = Inr ()" for repr
    by (simp only: run_with_token_set fst_conv)
  have 7: "sagemaker_Session world_no_results b \<noteq> Inl IndexError"
    "sess_default_bucket world_no_results \<noteq> Inl IndexError"
    "sagemaker_get_execution_role world_no_results \<noteq> Inl IndexError"
    "boto3_client world_no_results s \<noteq> Inl IndexError"
    "iam_get_role world_no_results n \<noteq> Inl IndexError"
    "HuggingFaceModel world_no_results r i e \<noteq> Inl IndexError"
    "llm_model_deploy world_no_results k t h \<noteq> Inl IndexError"
    "llm_predict world_no_results p \<noteq> Inl IndexError"
    "llm_delete_model world_no_results \<noteq> Inl IndexError"
    "llm_delete_endpoint world_no_results \<noteq> Inl IndexError" for b s n r i e k t h p
    by (simp_all add: world_no_results_def world_ok_def)
  from token_check_is_the_only_guard [OF 2, where w = world_no_results and tr = "[]"
      and e = IndexError, THEN conjunct2, THEN conjunct2, rule_format, OF 5] 3 7
  have 8: "glob_glob world_no_results summary_pattern = []"
    by (auto simp add: world_no_results_def world_ok_def)
  show ?thesis
    using 1 2 3 4 5 6 8
      token_check_is_the_only_guard [OF 1, where w = world_ok and tr = "[]",
        THEN conjunct1]
      token_check_is_the_only_guard [OF 1, where w = world_ok,
        THEN conjunct2, THEN conjunct1]
      token_check_is_the_only_guard [OF 2, where w = world_ok and tr = "[]",
        THEN conjunct1]
    by simp
qed

subsection \<open>C2: reading the completion\<close>

text \<open>
  C2. Whenever \<^verbatim>\<open>chat["choices"]\<close> is a list with first element \<open>first\<close>, \<^verbatim>\<open>first["message"]\<close>
  is \<open>message\<close> and \<^verbatim>\<open>message["content"]\<close> is a string \<open>c\<close>, the extraction step returns \<open>c\<close>
  stripped of the whitespace around it, whatever other keys and other choices the
  response has; it returns a value in no other case, and two responses whose lists of
  choices begin with the same element give the same outcome. Nothing is handled: the exception of the
  first subscript that fails is the outcome (\<^verbatim>\<open>KeyError\<close> for every dictionary without
  \<^verbatim>\<open>choices\<close>, \<^verbatim>\<open>IndexError\<close> for an empty list of choices), a content that is not a string
  ends in \<^verbatim>\<open>AttributeError\<close>, and the cell passes every such exception on, printing
  nothing.
\<close>

theorem extract_content_first_choice:
  "(getitem_str chat (str ''choices'') = Inr (PList (first # others)) \<and>
    getitem_str first (str ''message'') = Inr message \<and>
    getitem_str message (str ''content'') = Inr (PStr c) \<longrightarrow>
      extract_content chat = Inr (PStr (py_strip c)))
   \<and> (extract_content chat = Inr r \<longrightarrow>
        (\<exists>first others message c.
           getitem_str chat (str ''choices'') = Inr (PList (first # others)) \<and>
           getitem_str first (str ''message'') = Inr message \<and>
           getitem_str message (str ''content'') = Inr (PStr c) \<and>
           r = PStr (py_strip c)))
   \<and> (getitem_str chat (str ''choices'') = Inl e \<longrightarrow> extract_content chat = Inl e)
   \<and> (getitem_str chat (str ''choices'') = Inr choices \<and> getitem_int choices 0 = Inl e \<longrightarrow>
        extract_content chat = Inl e)
   \<and> (getitem_str chat (str ''choices'') = Inr choices \<and> getitem_int choices 0 = Inr choice \<and>
        getitem_str choice (str ''message'') = Inl e \<longrightarrow>
        extract_content chat = Inl e)
   \<and> (getitem_str chat (str ''choices'') = Inr choices \<and> getitem_int choices 0 = Inr choice \<and>
        getitem_str choice (str ''message'') = Inr message \<and>
        getitem_str message (str ''content'') = Inl e \<longrightarrow>
        extract_content chat = Inl e)
   \<and> (getitem_str chat (str ''choices'') = Inr choices \<and> getitem_int choices 0 = Inr choice \<and>
        getitem_str choice (str ''message'') = Inr message \<and>
        getitem_str message (str ''content'') = Inr content \<and> \<not> is_str content \<longrightarrow>
        extract_content chat = Inl AttributeError)
   \<and> (map_of d (str ''choices'') = None \<longrightarrow>
        extract_content (PDict d) = Inl (KeyError (PStr (str ''choices''))))
   \<and> (map_of d (str ''choices'') = Some (PList []) \<longrightarrow>
        extract_content (PDict d) = Inl IndexError)
   \<and> extract_content (PDict [(str ''choices'', PList [PDict [(str ''message'', PDict [(str ''content'', PStr c)])]])])
     = Inr (PStr (py_strip c))
   \<and> cell_chat rt w msgs params tr =
       (case llm_predict w (request_payload msgs params) of
          Inl e \<Rightarrow> (Inl e, tr @ [Predict (request_payload msgs params)])
        | Inr chat \<Rightarrow>
            (case extract_content chat of
               Inl e \<Rightarrow> (Inl e, tr @ [Predict (request_payload msgs params)])
             | Inr text \<Rightarrow> (Inr (), tr @ [Predict (request_payload msgs params), Print (py_str rt text)])))
   \<and> (getitem_str chat (str ''choices'') = Inr (PList (first # others)) \<and>
        getitem_str chat' (str ''choices'') = Inr (PList (first # others')) \<longrightarrow>
        extract_content chat = extract_content chat')"
proof (intro conjI impI)
  assume "getitem_str chat (str ''choices'') = Inr (PList (first # others)) \<and>
    getitem_str first (str ''message'') = Inr message \<and>
    getitem_str message (str ''content'') = Inr (PStr c)"
  then show "extract_content chat = Inr (PStr (py_strip c))"
    by (simp add: extract_content_def and_then_def list_index_def)
next
  assume "extract_content chat = Inr r"
  then show "\<exists>first others message c.
           getitem_str chat (str ''choices'') = Inr (PList (first # others)) \<and>
           getitem_str first (str ''message'') = Inr message \<and>
           getitem_str message (str ''content'') = Inr (PStr c) \<and>
           r = PStr (py_strip c)"
    by (rule extract_content_success)
next
  assume "getitem_str chat (str ''choices'') = Inl e"
  then show "extract_content chat = Inl e"
    by (simp add: extract_content_def and_then_def)
next
  assume "getitem_str chat (str ''choices'') = Inr choices \<and> getitem_int choices 0 = Inl e"
  then show "extract_content chat = Inl e"
    by (simp add: extract_content_def and_then_def)
next
  assume "getitem_str chat (str ''choices'') = Inr choices \<and> getitem_int choices 0 = Inr choice \<and>
        getitem_str choice (str ''message'') = Inl e"
  then show "extract_content chat = Inl e"
    by (simp add: extract_content_def and_then_def)
next
  assume "getitem_str chat (str ''choices'') = Inr choices \<and> getitem_int choices 0 = Inr choice \<and>
        getitem_str choice (str ''message'') = Inr message \<and>
        getitem_str message (str ''content'') = Inl e"
  then show "extract_content chat = Inl e"
    by (simp add: extract_content_def and_then_def)
next
  assume a: "getitem_str chat (str ''choices'') = Inr choices \<and> getitem_int choices 0 = Inr choice \<and>
        getitem_str choice (str ''message'') = Inr message \<and>
        getitem_str message (str ''content'') = Inr content \<and> \<not> is_str content"
  then have "call_strip content = Inl AttributeError"
    by (cases content) simp_all
  with a show "extract_content chat = Inl AttributeError"
    by (simp add: extract_content_def and_then_def)
next
  assume "map_of d (str ''choices'') = None"
  then show "extract_content (PDict d) = Inl (KeyError (PStr (str ''choices'')))"
    by (simp add: extract_content_def and_then_def)
next
  assume "map_of d (str ''choices'') = Some (PList [])"
  then show "extract_content (PDict d) = Inl IndexError"
    by (simp add: extract_content_def and_then_def list_index_def)
next
  show "extract_content (PDict [(str ''choices'', PList [PDict [(str ''message'', PDict [(str ''content'', PStr c)])]])])
     = Inr (PStr (py_strip c))"
    by (simp add: extract_content_def and_then_def list_index_def str_def)
next
  show "cell_chat rt w msgs params tr =
       (case llm_predict w (request_payload msgs params) of
          Inl e \<Rightarrow> (Inl e, tr @ [Predict (request_payload msgs params)])
        | Inr chat \<Rightarrow>
            (case extract_content chat of
               Inl e \<Rightarrow> (Inl e, tr @ [Predict (request_payload msgs params)])
             | Inr text \<Rightarrow> (Inr (), tr @ [Predict (request_payload msgs params), Print (py_str rt text)])))"
    by (simp add: cell_chat_def io_bind_def call_def io_lift_def py_print_def split: sum.splits)
next
  assume "getitem_str chat (str ''choices'') = Inr (PList (first # others)) \<and>
        getitem_str chat' (str ''choices'') = Inr (PList (first # others'))"
  then show "extract_content chat = extract_content chat'"
    by (simp add: extract_content_def and_then_def list_index_def)
qed

text \<open>The response \<^verbatim>\<open>{"choices": [{"message": {"content": "X"}}]}\<close>, a full chat
  completion, an error envelope, and a response that is a list.\<close>

theorem extract_content_witness:
  "extract_content (PDict [(str ''choices'', PList [PDict [(str ''message'', PDict [(str ''content'', PStr (str ''X''))])]])])
     = Inr (PStr (str ''X''))
   \<and> getitem_str chat_completion (str ''choices'') =
       Inr (PList
         [PDict [(str ''index'', PInt 0),
                 (str ''message'', PDict [(str ''role'', PStr (str ''assistant'')),
                                           (str ''content'', PStr (str '' X ''))]),
                 (str ''logprobs'', PNone),
                 (str ''finish_reason'', PStr (str ''eos_token''))],
          PDict [(str ''index'', PInt 1),
                 (str ''message'', PDict [(str ''role'', PStr (str ''assistant'')),
                                           (str ''content'', PStr (str ''Y''))])]])
   \<and> extract_content chat_completion = Inr (PStr (str ''X''))
   \<and> map_of [(str ''error'', PStr (str ''Input validation error'')),
              (str ''error_type'', PStr (str ''validation'')),
              (str ''generated_text'', PStr (str '' X ''))] (str ''choices'') = None
   \<and> extract_content error_envelope = Inl (KeyError (PStr (str ''choices'')))
   \<and> extract_content (PList [chat_completion]) = Inl TypeError
   \<and> extract_content (PDict [(str ''choices'', PList
         [PDict [(str ''index'', PInt 0),
                 (str ''message'', PDict [(str ''role'', PStr (str ''assistant'')),
                                           (str ''content'', PStr (str '' X ''))]),
                 (str ''logprobs'', PNone),
                 (str ''finish_reason'', PStr (str ''eos_token''))]])])
       = extract_content chat_completion"
proof -
  have 1: "getitem_str chat_completion (str ''choices'') =
       Inr (PList
         (PDict [(str ''index'', PInt 0),
                 (str ''message'', PDict [(str ''role'', PStr (str ''assistant'')),
                                           (str ''content'', PStr (str '' X ''))]),
                 (str ''logprobs'', PNone),
                 (str ''finish_reason'', PStr (str ''eos_token''))] #
          [PDict [(str ''index'', PInt 1),
                 (str ''message'', PDict [(str ''role'', PStr (str ''assistant'')),
                                           (str ''content'', PStr (str ''Y''))])]]))"
    by (simp add: chat_completion_def str_def)
  have 2: "getitem_str (PDict [(str ''index'', PInt 0),
                 (str ''message'', PDict [(str ''role'', PStr (str ''assistant'')),
                                           (str ''content'', PStr (str '' X ''))]),
                 (str ''logprobs'', PNone),
                 (str ''finish_reason'', PStr (str ''eos_token''))]) (str ''message'')
        = Inr (PDict [(str ''role'', PStr (str ''assistant'')),
                      (str ''content'', PStr (str '' X ''))])"
    by (simp add: str_def)
  have 3: "getitem_str (PDict [(str ''role'', PStr (str ''assistant'')),
                      (str ''content'', PStr (str '' X ''))]) (str ''content'')
        = Inr (PStr (str '' X ''))"
    by (simp add: str_def)
  have 4: "map_of [(str ''error'', PStr (str ''Input validation error'')),
              (str ''error_type'', PStr (str ''validation'')),
              (str ''generated_text'', PStr (str '' X ''))] (str ''choices'') = None"
    by (simp add: str_def)
  have 5: "getitem_str (PList [chat_completion]) (str ''choices'') = Inl TypeError"
    by simp
  have strip: "py_strip (str ''X'') = str ''X''" "py_strip (str '' X '') = str ''X''"
    by (simp_all add: py_strip_def py_isspace_def str_def)
  have a: "extract_content (PDict [(str ''choices'', PList [PDict [(str ''message'', PDict [(str ''content'', PStr (str ''X''))])]])])
     = Inr (PStr (py_strip (str ''X'')))"
    by (rule extract_content_first_choice [THEN conjunct2, THEN conjunct2, THEN conjunct2,
          THEN conjunct2, THEN conjunct2, THEN conjunct2, THEN conjunct2, THEN conjunct2,
          THEN conjunct2, THEN conjunct1])
  have b: "extract_content chat_completion = Inr (PStr (py_strip (str '' X '')))"
    by (rule extract_content_first_choice [THEN conjunct1, THEN mp])
       (intro conjI, rule 1, rule 2, rule 3)
  have c: "extract_content error_envelope = Inl (KeyError (PStr (str ''choices'')))"
    unfolding error_envelope_def
    by (rule extract_content_first_choice [THEN conjunct2, THEN conjunct2, THEN conjunct2,
          THEN conjunct2, THEN conjunct2, THEN conjunct2, THEN conjunct2, THEN conjunct1, THEN mp])
       (rule 4)
  have d: "extract_content (PList [chat_completion]) = Inl TypeError"
    by (rule extract_content_first_choice [THEN conjunct2, THEN conjunct2, THEN conjunct1, THEN mp])
       (rule 5)
  have 6: "getitem_str (PDict [(str ''choices'', PList
         [PDict [(str ''index'', PInt 0),
                 (str ''message'', PDict [(str ''role'', PStr (str ''assistant'')),
                                           (str ''content'', PStr (str '' X ''))]),
                 (str ''logprobs'', PNone),
                 (str ''finish_reason'', PStr (str ''eos_token''))]])]) (str ''choices'')
      = Inr (PList
         (PDict [(str ''index'', PInt 0),
                 (str ''message'', PDict [(str ''role'', PStr (str ''assistant'')),
                                           (str ''content'', PStr (str '' X ''))]),
                 (str ''logprobs'', PNone),
                 (str ''finish_reason'', PStr (str ''eos_token''))] # []))"
    by simp
  have e: "extract_content (PDict [(str ''choices'', PList
         [PDict [(str ''index'', PInt 0),
                 (str ''message'', PDict [(str ''role'', PStr (str ''assistant'')),
                                           (str ''content'', PStr (str '' X ''))]),
                 (str ''logprobs'', PNone),
                 (str ''finish_reason'', PStr (str ''eos_token''))]])])
       = extract_content chat_completion"
    by (rule extract_content_first_choice [THEN conjunct2, THEN conjunct2, THEN conjunct2,
          THEN conjunct2, THEN conjunct2, THEN conjunct2, THEN conjunct2, THEN conjunct2,
          THEN conjunct2, THEN conjunct2, THEN conjunct2, THEN mp])
       (intro conjI, rule 6, rule 1)
  from a b c d e 1 4 show ?thesis
    by (simp only: strip)
qed

subsection \<open>C3: the image URI\<close>

text \<open>
  C3. For the region \<^verbatim>\<open>us-east-1\<close> the image resolver gives exactly
  \<^verbatim>\<open>763104351884.dkr.ecr.us-east-1.amazonaws.com/huggingface-pytorch-tgi-inference:2.1-tgi2.0-gpu-py310-cu121-ubuntu22.04\<close>,
  and the cell prints and leaves that string. For every region the URI is the registry
  account, the region, the repository name and the tag in the fixed template.
\<close>

theorem llm_image_us_east_1:
  "llm_image (str ''us-east-1'') =
     str ''763104351884.dkr.ecr.us-east-1.amazonaws.com/huggingface-pytorch-tgi-inference:2.1-tgi2.0-gpu-py310-cu121-ubuntu22.04''
   \<and> llm_image boto_region_name =
     str ''763104351884'' @ str ''.dkr.ecr.'' @ boto_region_name @ str ''.amazonaws.com/'' @
     str ''huggingface-pytorch-tgi-inference'' @ str '':'' @
     str ''2.1-tgi2.0-gpu-py310-cu121-ubuntu22.04''
   \<and> cell_image (str ''us-east-1'') tr =
     (Inr (str ''763104351884.dkr.ecr.us-east-1.amazonaws.com/huggingface-pytorch-tgi-inference:2.1-tgi2.0-gpu-py310-cu121-ubuntu22.04''),
      tr @ [Print (str ''llm image uri: 763104351884.dkr.ecr.us-east-1.amazonaws.com/huggingface-pytorch-tgi-inference:2.1-tgi2.0-gpu-py310-cu121-ubuntu22.04'')])"
  by (simp add: llm_image_def cell_image_def io_bind_def py_print_def io_ret_def str_def)

subsection \<open>C4: the latency lines\<close>

text \<open>
  C4. For a summary with the two token counts, the fourth line printed is
  \<^verbatim>\<open>Avg. First-Time-To-Token: \<close>, the text of the time to first token times \<open>1000\<close> in
  \<^verbatim>\<open>'.2f'\<close>, and \<^verbatim>\<open>ms\<close>, whenever that text exists; with all five fields the
  inter-token-latency line is built in the same way and the throughput line from its
  field unscaled. Under CPython's floats the text for a float field is \<^verbatim>\<open>'.2f'\<close> of the
  binary64 product of the field and \<open>1000.0\<close>. When that product is finite it has the sign
  of the field and differs from a thousand times the field's value by at most \<open>2 ^ - 53\<close>
  of that (by \<open>2 ^ - 1075\<close> for a subnormal result); the text is the numeral with two
  decimals nearest to the product, the one with the even last digit on a tie; it is
  \<^verbatim>\<open>inf\<close>, \<^verbatim>\<open>-inf\<close> or \<^verbatim>\<open>nan\<close> for a product that is not finite. An integer field is
  multiplied exactly and the product converted to a double: below \<open>2 ^ 53\<close> in absolute
  value the text is its digits followed by \<^verbatim>\<open>.00\<close>, and the conversion raises nothing but
  \<^verbatim>\<open>OverflowError\<close>. For the double of \<^verbatim>\<open>1.30128\<close> the text is \<^verbatim>\<open>1301.28\<close>, so the line is
  \<^verbatim>\<open>Avg. First-Time-To-Token: 1301.28ms\<close>.
\<close>

theorem latency_lines_scaled_and_rounded:
  "(getitem_str data (str ''mean_input_tokens'') = Inr a \<and>
    getitem_str data (str ''mean_output_tokens'') = Inr b \<and>
    getitem_str data (str ''results_ttft_s_mean'') = Inr v \<and>
    and_then (py_mul_int rt v 1000) (py_format_2f rt) = Inr ttext \<longrightarrow>
    (\<exists>r rest. print_summary rt data tr =
      (r, tr @
        [Print (str ''Concurrent requests: 25''),
         Print (str ''Avg. Input token length: '' @ py_str rt a),
         Print (str ''Avg. Output token length: '' @ py_str rt b),
         Print (str ''Avg. First-Time-To-Token: '' @ ttext @ str ''ms'')]
        @ rest)))
   \<and> (getitem_str data (str ''mean_input_tokens'') = Inr a \<and>
    getitem_str data (str ''mean_output_tokens'') = Inr b \<and>
    getitem_str data (str ''results_ttft_s_mean'') = Inr v \<and>
    and_then (py_mul_int rt v 1000) (py_format_2f rt) = Inr ttext \<and>
    getitem_str data (str ''results_mean_output_throughput_token_per_s'') = Inr p \<and>
    py_format_2f rt p = Inr ptext \<and>
    getitem_str data (str ''results_inter_token_latency_s_mean'') = Inr l \<and>
    and_then (py_mul_int rt l 1000) (py_format_2f rt) = Inr ltext \<longrightarrow>
    print_summary rt data tr =
      (Inr (), tr @
        [Print (str ''Concurrent requests: 25''),
         Print (str ''Avg. Input token length: '' @ py_str rt a),
         Print (str ''Avg. Output token length: '' @ py_str rt b),
         Print (str ''Avg. First-Time-To-Token: '' @ ttext @ str ''ms''),
         Print (str ''Avg. Thorughput: '' @ ptext @ str '' tokens/sec''),
         Print (str ''Avg. Latency: '' @ ltext @ str ''ms/token'')]))
   \<and> and_then (py_mul_int (cpython repr) (PFloat t) 1000) (py_format_2f (cpython repr))
       = Inr (ieee_format_2f (ieee_mul t (Finite False 8796093022208000 (- 43))))
   \<and> and_then (py_mul_int (cpython repr) (PInt i) 1000) (py_format_2f (cpython repr))
       = (case ieee_of_int (i * 1000) of
            Inl err \<Rightarrow> Inl err
          | Inr g \<Rightarrow> Inr (ieee_format_2f g))
   \<and> py_format_2f (cpython repr) (PFloat t) = Inr (ieee_format_2f t)
   \<and> ieee_of_int 1000 = Inr (Finite False 8796093022208000 (- 43))
   \<and> (ieee_mul (Finite s m e) (Finite False 8796093022208000 (- 43)) = Finite s' m' e' \<longrightarrow>
        s' = s \<and>
        \<bar>float_magnitude (Finite s' m' e') - 1000 * float_magnitude (Finite s m e)\<bar>
          \<le> max (1000 * float_magnitude (Finite s m e) / 2 ^ 53) (2 powi (- 1075)))
   \<and> (\<exists>k. ieee_format_2f (Finite s' m' e') = two_decimals s' k \<and>
            \<bar>of_nat k / 100 - float_magnitude (Finite s' m' e')\<bar> \<le> 1 / 200 \<and>
            (\<bar>of_nat k / 100 - float_magnitude (Finite s' m' e')\<bar> = 1 / 200 \<longrightarrow> even k))
   \<and> ieee_format_2f (Infinity sg) = (if sg then str ''-inf'' else str ''inf'')
   \<and> ieee_format_2f NaN = str ''nan''
   \<and> (\<bar>i * 1000\<bar> < 2 ^ 53 \<longrightarrow>
        and_then (py_mul_int (cpython repr) (PInt i) 1000) (py_format_2f (cpython repr))
          = Inr (str_of_int (i * 1000) @ str ''.00''))
   \<and> (ieee_of_int j = Inl err \<longrightarrow> err = OverflowError)
   \<and> ieee_format_2f (ieee_mul (Finite False 5860444123104679 (- 52))
                         (Finite False 8796093022208000 (- 43))) = str ''1301.28''"
proof (intro conjI impI)
  assume "getitem_str data (str ''mean_input_tokens'') = Inr a \<and>
    getitem_str data (str ''mean_output_tokens'') = Inr b \<and>
    getitem_str data (str ''results_ttft_s_mean'') = Inr v \<and>
    and_then (py_mul_int rt v 1000) (py_format_2f rt) = Inr ttext"
  then show "\<exists>r rest. print_summary rt data tr =
      (r, tr @
        [Print (str ''Concurrent requests: 25''),
         Print (str ''Avg. Input token length: '' @ py_str rt a),
         Print (str ''Avg. Output token length: '' @ py_str rt b),
         Print (str ''Avg. First-Time-To-Token: '' @ ttext @ str ''ms'')]
        @ rest)"
    using print_summary_fourth_line [where v = v] by blast
next
  assume "getitem_str data (str ''mean_input_tokens'') = Inr a \<and>
    getitem_str data (str ''mean_output_tokens'') = Inr b \<and>
    getitem_str data (str ''results_ttft_s_mean'') = Inr v \<and>
    and_then (py_mul_int rt v 1000) (py_format_2f rt) = Inr ttext \<and>
    getitem_str data (str ''results_mean_output_throughput_token_per_s'') = Inr p \<and>
    py_format_2f rt p = Inr ptext \<and>
    getitem_str data (str ''results_inter_token_latency_s_mean'') = Inr l \<and>
    and_then (py_mul_int rt l 1000) (py_format_2f rt) = Inr ltext"
  then show "print_summary rt data tr =
      (Inr (), tr @
        [Print (str ''Concurrent requests: 25''),
         Print (str ''Avg. Input token length: '' @ py_str rt a),
         Print (str ''Avg. Output token length: '' @ py_str rt b),
         Print (str ''Avg. First-Time-To-Token: '' @ ttext @ str ''ms''),
         Print (str ''Avg. Thorughput: '' @ ptext @ str '' tokens/sec''),
         Print (str ''Avg. Latency: '' @ ltext @ str ''ms/token'')])"
    using print_summary_six_lines [where v = v and p = p and l = l] by blast
next
  show "and_then (py_mul_int (cpython repr) (PFloat t) 1000) (py_format_2f (cpython repr))
       = Inr (ieee_format_2f (ieee_mul t (Finite False 8796093022208000 (- 43))))"
    by (rule scaled_float_text)
next
  show "and_then (py_mul_int (cpython repr) (PInt i) 1000) (py_format_2f (cpython repr))
       = (case ieee_of_int (i * 1000) of
            Inl err \<Rightarrow> Inl err
          | Inr g \<Rightarrow> Inr (ieee_format_2f g))"
    by (rule scaled_int_text)
next
  show "py_format_2f (cpython repr) (PFloat t) = Inr (ieee_format_2f t)"
    by (simp add: cpython_def)
next
  show "ieee_of_int 1000 = Inr (Finite False 8796093022208000 (- 43))"
    by (rule ieee_of_int_1000)
next
  assume a: "ieee_mul (Finite s m e) (Finite False 8796093022208000 (- 43)) = Finite s' m' e'"
  from ieee_mul_thousand_error [OF a] show "s' = s" by simp
  from ieee_mul_thousand_error [OF a]
  show "\<bar>float_magnitude (Finite s' m' e') - 1000 * float_magnitude (Finite s m e)\<bar>
          \<le> max (1000 * float_magnitude (Finite s m e) / 2 ^ 53) (2 powi (- 1075))"
    by simp
next
  show "\<exists>k. ieee_format_2f (Finite s' m' e') = two_decimals s' k \<and>
            \<bar>of_nat k / 100 - float_magnitude (Finite s' m' e')\<bar> \<le> 1 / 200 \<and>
            (\<bar>of_nat k / 100 - float_magnitude (Finite s' m' e')\<bar> = 1 / 200 \<longrightarrow> even k)"
    by (rule ieee_format_2f_nearest)
next
  show "ieee_format_2f (Infinity sg) = (if sg then str ''-inf'' else str ''inf'')"
    by simp
next
  show "ieee_format_2f NaN = str ''nan''"
    by simp
next
  assume "\<bar>i * 1000\<bar> < 2 ^ 53"
  then obtain g where "ieee_of_int (i * 1000) = Inr g"
    and "ieee_format_2f g = str_of_int (i * 1000) @ str ''.00''"
    using ieee_of_int_small by blast
  then show "and_then (py_mul_int (cpython repr) (PInt i) 1000) (py_format_2f (cpython repr))
          = Inr (str_of_int (i * 1000) @ str ''.00'')"
    unfolding scaled_int_text by simp
next
  assume "ieee_of_int j = Inl err"
  then show "err = OverflowError" by (rule ieee_of_int_raises)
next
  show "ieee_format_2f (ieee_mul (Finite False 5860444123104679 (- 52))
                         (Finite False 8796093022208000 (- 43))) = str ''1301.28''"
    by (simp only: ttft_sample ttft_sample_text)
qed

text \<open>The summary of the recorded run prints the six lines of the notebook's output; a
  summary with a time to first token of \<open>2\<close>, an integer, prints \<^verbatim>\<open>2000.00ms\<close>.\<close>

theorem latency_lines_witness:
  "(\<forall>repr. print_summary (cpython repr) summary_data [] =
      (Inr (),
        [Print (str ''Concurrent requests: 25''),
         Print (str ''Avg. Input token length: 550''),
         Print (str ''Avg. Output token length: 150''),
         Print (str ''Avg. First-Time-To-Token: 1301.28ms''),
         Print (str ''Avg. Thorughput: 1116.25 tokens/sec''),
         Print (str ''Avg. Latency: 10.45ms/token'')]))
   \<and> (\<forall>repr. \<exists>r rest.
        print_summary (cpython repr)
          (PDict [(str ''mean_input_tokens'', PInt 550),
                  (str ''mean_output_tokens'', PInt 150),
                  (str ''results_ttft_s_mean'', PInt 2)]) [] =
        (r, [Print (str ''Concurrent requests: 25''),
             Print (str ''Avg. Input token length: 550''),
             Print (str ''Avg. Output token length: 150''),
             Print (str ''Avg. First-Time-To-Token: 2000.00ms'')] @ rest))
   \<and> ieee_mul (Finite False 5860444123104679 (- 52)) (Finite False 8796093022208000 (- 43))
       = Finite False 5723089963969413 (- 42)
   \<and> \<bar>float_magnitude (Finite False 5723089963969413 (- 42))
         - 1000 * float_magnitude (Finite False 5860444123104679 (- 52))\<bar>
       \<le> max (1000 * float_magnitude (Finite False 5860444123104679 (- 52)) / 2 ^ 53)
             (2 powi (- 1075))
   \<and> ieee_of_int (2 ^ 1024) = Inl OverflowError"
proof -
  note fourth = latency_lines_scaled_and_rounded [THEN conjunct1, rule_format]
  note rest1 = latency_lines_scaled_and_rounded [THEN conjunct2]
  note six = rest1 [THEN conjunct1, rule_format]
  note rest2 = rest1 [THEN conjunct2]
  note scaled_float = rest2 [THEN conjunct1]
  note rest4 = rest2 [THEN conjunct2, THEN conjunct2]
  note plain_float = rest4 [THEN conjunct1]
  note rest6 = rest4 [THEN conjunct2, THEN conjunct2]
  note product = rest6 [THEN conjunct1, rule_format]
  note rest10 = rest6 [THEN conjunct2, THEN conjunct2, THEN conjunct2, THEN conjunct2]
  note whole = rest10 [THEN conjunct1, rule_format]
  note overflow = rest10 [THEN conjunct2, THEN conjunct1, rule_format]
  have texts: "py_str (cpython repr) (PInt 550) = str ''550''"
    "py_str (cpython repr) (PInt 150) = str ''150''" for repr
    by (simp_all add: str_of_int_def dec_nat.simps str_def)
  have recorded: "print_summary (cpython repr) summary_data [] =
      (Inr (),
        [Print (str ''Concurrent requests: 25''),
         Print (str ''Avg. Input token length: 550''),
         Print (str ''Avg. Output token length: 150''),
         Print (str ''Avg. First-Time-To-Token: 1301.28ms''),
         Print (str ''Avg. Thorughput: 1116.25 tokens/sec''),
         Print (str ''Avg. Latency: 10.45ms/token'')])" for repr
  proof -
    have fields:
      "getitem_str summary_data (str ''mean_input_tokens'') = Inr (PInt 550) \<and>
       getitem_str summary_data (str ''mean_output_tokens'') = Inr (PInt 150) \<and>
       getitem_str summary_data (str ''results_ttft_s_mean'')
         = Inr (PFloat (Finite False 5860444123104679 (- 52))) \<and>
       and_then (py_mul_int (cpython repr) (PFloat (Finite False 5860444123104679 (- 52))) 1000)
         (py_format_2f (cpython repr)) = Inr (str ''1301.28'') \<and>
       getitem_str summary_data (str ''results_mean_output_throughput_token_per_s'')
         = Inr (PFloat (Finite False 4465 (- 2))) \<and>
       py_format_2f (cpython repr) (PFloat (Finite False 4465 (- 2))) = Inr (str ''1116.25'') \<and>
       getitem_str summary_data (str ''results_inter_token_latency_s_mean'')
         = Inr (PFloat (Finite False 6024014861570775 (- 59))) \<and>
       and_then (py_mul_int (cpython repr) (PFloat (Finite False 6024014861570775 (- 59))) 1000)
         (py_format_2f (cpython repr)) = Inr (str ''10.45'')"
      apply (simp only: scaled_float plain_float ttft_sample ttft_sample_text latency_sample
          throughput_sample)
      apply (simp add: summary_data_def str_def)
      done
    from six [OF fields, where tr = "[]"] show ?thesis
      by (simp only: texts) (simp add: str_def)
  qed
  have whole_seconds: "\<exists>r rest.
        print_summary (cpython repr)
          (PDict [(str ''mean_input_tokens'', PInt 550),
                  (str ''mean_output_tokens'', PInt 150),
                  (str ''results_ttft_s_mean'', PInt 2)]) [] =
        (r, [Print (str ''Concurrent requests: 25''),
             Print (str ''Avg. Input token length: 550''),
             Print (str ''Avg. Output token length: 150''),
             Print (str ''Avg. First-Time-To-Token: 2000.00ms'')] @ rest)" for repr
  proof -
    have small: "\<bar>(2::int) * 1000\<bar> < 2 ^ 53" by simp
    have digits: "str_of_int (2 * 1000) @ str ''.00'' = str ''2000.00''"
      by (simp add: str_of_int_def dec_nat.simps str_def)
    have fields:
      "getitem_str (PDict [(str ''mean_input_tokens'', PInt 550),
                  (str ''mean_output_tokens'', PInt 150),
                  (str ''results_ttft_s_mean'', PInt 2)]) (str ''mean_input_tokens'')
         = Inr (PInt 550) \<and>
       getitem_str (PDict [(str ''mean_input_tokens'', PInt 550),
                  (str ''mean_output_tokens'', PInt 150),
                  (str ''results_ttft_s_mean'', PInt 2)]) (str ''mean_output_tokens'')
         = Inr (PInt 150) \<and>
       getitem_str (PDict [(str ''mean_input_tokens'', PInt 550),
                  (str ''mean_output_tokens'', PInt 150),
                  (str ''results_ttft_s_mean'', PInt 2)]) (str ''results_ttft_s_mean'')
         = Inr (PInt 2) \<and>
       and_then (py_mul_int (cpython repr) (PInt 2) 1000) (py_format_2f (cpython repr))
         = Inr (str ''2000.00'')"
      apply (simp only: whole [OF small] digits)
      apply (simp add: str_def)
      done
    from fourth [OF fields, where tr = "[]"] show ?thesis
      by (simp only: texts) (simp add: str_def)
  qed
  have p: "ieee_mul (Finite False 5860444123104679 (- 52)) (Finite False 8796093022208000 (- 43))
       = Finite False 5723089963969413 (- 42)"
    by (rule ttft_sample)
  have bound: "\<bar>float_magnitude (Finite False 5723089963969413 (- 42))
         - 1000 * float_magnitude (Finite False 5860444123104679 (- 52))\<bar>
       \<le> max (1000 * float_magnitude (Finite False 5860444123104679 (- 52)) / 2 ^ 53)
             (2 powi (- 1075))"
    by (rule product [OF p, THEN conjunct2])
  have "\<exists>err. ieee_of_int (2 ^ 1024) = Inl err"
    by (rule exI, rule int_overflow_sample)
  then obtain err where e: "ieee_of_int (2 ^ 1024) = Inl err" ..
  from overflow [OF e] e have too_large: "ieee_of_int (2 ^ 1024) = Inl OverflowError"
    by simp
  from recorded whole_seconds p bound too_large show ?thesis
    by blast
qed

text \<open>
  The text is not always the two-decimal rounding of a thousand times the field. For the
  double of \<^verbatim>\<open>1.0438749999999999\<close> the line reads \<^verbatim>\<open>1043.88ms\<close>, although a thousand times
  that double is below \<open>1043.875\<close> and nearer to \<open>1043.87\<close>: the product is rounded to a
  double before it is rounded to two decimals. For the double of \<^verbatim>\<open>1e306\<close> the line reads
  \<^verbatim>\<open>infms\<close>.
\<close>

theorem latency_not_exact_counterexample:
  "ieee_format_2f (ieee_mul (Finite False 73456172828459 (- 46))
                     (Finite False 8796093022208000 (- 43))) = str ''1043.88''
   \<and> 1000 * float_magnitude (Finite False 73456172828459 (- 46)) < 1043875 / 1000
   \<and> \<bar>104387 / 100 - 1000 * float_magnitude (Finite False 73456172828459 (- 46))\<bar>
       < \<bar>104388 / 100 - 1000 * float_magnitude (Finite False 73456172828459 (- 46))\<bar>
   \<and> ieee_format_2f (ieee_mul (Finite False 6413338752028713 964)
                         (Finite False 8796093022208000 (- 43))) = str ''inf''"
proof (intro conjI)
  show "ieee_format_2f (ieee_mul (Finite False 73456172828459 (- 46))
                     (Finite False 8796093022208000 (- 43))) = str ''1043.88''"
    by (simp only: near_tie_sample near_tie_sample_text)
  have v: "1000 * float_magnitude (Finite False 73456172828459 (- 46))
      = 1000 * 73456172828459 / 2 ^ 46"
    by (simp add: power_int_minus field_simps)
  show "1000 * float_magnitude (Finite False 73456172828459 (- 46)) < 1043875 / 1000"
    unfolding v by simp
  show "\<bar>104387 / 100 - 1000 * float_magnitude (Finite False 73456172828459 (- 46))\<bar>
       < \<bar>104388 / 100 - 1000 * float_magnitude (Finite False 73456172828459 (- 46))\<bar>"
    unfolding v by simp
  show "ieee_format_2f (ieee_mul (Finite False 6413338752028713 964)
                         (Finite False 8796093022208000 (- 43))) = str ''inf''"
    by (simp only: overflow_sample) simp
qed

subsection \<open>C5: the configuration\<close>

text \<open>
  C5. With a token other than the placeholder, the configuration has exactly the seven
  documented keys, each once and each with a string value; the check passes, and the
  environment of the model object (the only one a run creates) is that configuration,
  unchanged.
\<close>

theorem config_has_documented_keys:
  assumes "token \<noteq> token_placeholder"
  shows "map fst (config_with_token token) =
           [str ''HF_MODEL_ID'', str ''SM_NUM_GPUS'', str ''MAX_INPUT_LENGTH'',
            str ''MAX_TOTAL_TOKENS'', str ''MAX_BATCH_TOTAL_TOKENS'',
            str ''MESSAGES_API_ENABLED'', str ''HUGGING_FACE_HUB_TOKEN'']
         \<and> distinct (map fst (config_with_token token))
         \<and> list_all is_str (map snd (config_with_token token))
         \<and> cell_model w (config_with_token token) role image_uri tr =
             (HuggingFaceModel w role image_uri (config_with_token token),
              tr @ [NewHuggingFaceModel role image_uri (config_with_token token)])
         \<and> list_all (model_env_is (config_with_token token))
              (snd (run_cells rt w (config_with_token token) []))"
proof -
  have keys: "map fst (config_with_token token) =
           [str ''HF_MODEL_ID'', str ''SM_NUM_GPUS'', str ''MAX_INPUT_LENGTH'',
            str ''MAX_TOTAL_TOKENS'', str ''MAX_BATCH_TOTAL_TOKENS'',
            str ''MESSAGES_API_ENABLED'', str ''HUGGING_FACE_HUB_TOKEN'']"
    by (simp add: config_with_token_def)
  have dist: "distinct (map fst (config_with_token token))"
    unfolding keys by (simp add: str_def)
  have strs: "list_all is_str (map snd (config_with_token token))"
    by (simp add: config_with_token_def)
  from assms have "PStr token \<noteq> PStr token_placeholder" by simp
  then have model: "cell_model w (config_with_token token) role image_uri tr =
             (HuggingFaceModel w role image_uri (config_with_token token),
              tr @ [NewHuggingFaceModel role image_uri (config_with_token token)])"
    by (rule cell_model_token_set [OF config_token])
  from keys dist strs model emits_trace [OF emits_run_cells] show ?thesis by simp
qed

theorem config_keys_witness:
  "str ''hf_example'' \<noteq> token_placeholder
   \<and> map fst (config_with_token (str ''hf_example'')) =
           [str ''HF_MODEL_ID'', str ''SM_NUM_GPUS'', str ''MAX_INPUT_LENGTH'',
            str ''MAX_TOTAL_TOKENS'', str ''MAX_BATCH_TOTAL_TOKENS'',
            str ''MESSAGES_API_ENABLED'', str ''HUGGING_FACE_HUB_TOKEN'']
   \<and> list_all is_str (map snd (config_with_token (str ''hf_example'')))
   \<and> map_of (config_with_token (str ''hf_example'')) (str ''HUGGING_FACE_HUB_TOKEN'')
       = Some (PStr (str ''hf_example''))"
proof -
  have 1: "str ''hf_example'' \<noteq> token_placeholder"
    by (simp add: token_placeholder_def str_def)
  have 2: "map_of (config_with_token (str ''hf_example'')) (str ''HUGGING_FACE_HUB_TOKEN'')
       = Some (PStr (str ''hf_example''))"
    by (simp add: config_with_token_def str_def)
  from 1 2 config_has_documented_keys [OF 1] show ?thesis by simp
qed

subsection \<open>C6: the execution role\<close>

text \<open>
  C6, as the code has it. If the primary lookup returns a role, that is the role. If it
  raises \<^verbatim>\<open>ValueError\<close>, the resolver creates an IAM client, asks once for the role named
  \<^verbatim>\<open>sagemaker_execution_role\<close> and returns \<^verbatim>\<open>['Role']['Arn']\<close> of the answer; an exception of
  the client, of the lookup or of the two subscripts goes to the caller, with no second
  attempt. If the primary lookup raises anything else, that exception goes to the
  caller and IAM is never asked.
\<close>

theorem resolve_role_fallback_on_ValueError:
  "(sagemaker_get_execution_role w = Inr role \<longrightarrow>
      resolve_role w tr = (Inr role, tr @ [GetExecutionRole]))
   \<and> (sagemaker_get_execution_role w = Inl (ValueError m) \<longrightarrow>
      resolve_role w tr =
        (case boto3_client w (str ''iam'') of
           Inl e \<Rightarrow> (Inl e, tr @ [GetExecutionRole, Boto3Client (str ''iam'')])
         | Inr iam \<Rightarrow>
             (and_then (iam_get_role w (str ''sagemaker_execution_role'')) (\<lambda>response.
                and_then (getitem_str response (str ''Role'')) (\<lambda>r.
                  getitem_str r (str ''Arn''))),
              tr @ [GetExecutionRole, Boto3Client (str ''iam''),
                    IamGetRole (str ''sagemaker_execution_role'')])))
   \<and> (sagemaker_get_execution_role w = Inl e \<and> (\<forall>m. e \<noteq> ValueError m) \<longrightarrow>
      resolve_role w tr = (Inl e, tr @ [GetExecutionRole]))"
proof (intro conjI impI)
  assume "sagemaker_get_execution_role w = Inr role"
  then show "resolve_role w tr = (Inr role, tr @ [GetExecutionRole])"
    by (simp add: resolve_role_def try_except_ValueError_def call_def)
next
  assume "sagemaker_get_execution_role w = Inl (ValueError m)"
  then show "resolve_role w tr =
        (case boto3_client w (str ''iam'') of
           Inl e \<Rightarrow> (Inl e, tr @ [GetExecutionRole, Boto3Client (str ''iam'')])
         | Inr iam \<Rightarrow>
             (and_then (iam_get_role w (str ''sagemaker_execution_role'')) (\<lambda>response.
                and_then (getitem_str response (str ''Role'')) (\<lambda>r.
                  getitem_str r (str ''Arn''))),
              tr @ [GetExecutionRole, Boto3Client (str ''iam''),
                    IamGetRole (str ''sagemaker_execution_role'')]))"
    by (simp add: resolve_role_def try_except_ValueError_def call_def iam_fallback_def
        io_bind_def io_lift_def and_then_def split: sum.splits)
next
  assume "sagemaker_get_execution_role w = Inl e \<and> (\<forall>m. e \<noteq> ValueError m)"
  then show "resolve_role w tr = (Inl e, tr @ [GetExecutionRole])"
    by (cases e) (simp_all add: resolve_role_def try_except_ValueError_def call_def)
qed

theorem resolve_role_witness:
  "resolve_role world_ok [] =
     (Inr (PStr (str ''arn:aws:iam::123456789012:role/notebook'')), [GetExecutionRole])
   \<and> resolve_role world_not_a_role [] =
     (Inr (PStr (str ''arn:aws:iam::123456789012:role/sagemaker_execution_role'')),
      [GetExecutionRole, Boto3Client (str ''iam''), IamGetRole (str ''sagemaker_execution_role'')])
   \<and> resolve_role world_no_fallback_role [] =
     (Inl (OtherError (str ''NoSuchEntityException'')),
      [GetExecutionRole, Boto3Client (str ''iam''), IamGetRole (str ''sagemaker_execution_role'')])"
  using resolve_role_fallback_on_ValueError
          [of world_ok "PStr (str ''arn:aws:iam::123456789012:role/notebook'')" "[]"]
        resolve_role_fallback_on_ValueError
          [of world_not_a_role _ "[]" "str ''The current AWS identity is not a role''"]
        resolve_role_fallback_on_ValueError
          [of world_no_fallback_role _ "[]" "str ''The current AWS identity is not a role''"]
  by (simp add: world_ok_def world_not_a_role_def world_no_fallback_role_def and_then_def str_def)

text \<open>
  C6 as stated (a fallback after every failure of the primary lookup) does not hold: in
  a world where the primary lookup raises \<^verbatim>\<open>EndpointConnectionError\<close> and the IAM lookup
  would have answered with the role's ARN, the resolver ends in that exception and the
  IAM lookup is not among its calls.
\<close>

theorem resolve_role_no_fallback_counterexample:
  "sagemaker_get_execution_role world_sts_unreachable = Inl (OtherError (str ''EndpointConnectionError''))
   \<and> and_then (iam_get_role world_sts_unreachable (str ''sagemaker_execution_role''))
         (\<lambda>response. and_then (getitem_str response (str ''Role''))
            (\<lambda>r. getitem_str r (str ''Arn'')))
       = Inr (PStr (str ''arn:aws:iam::123456789012:role/sagemaker_execution_role''))
   \<and> resolve_role world_sts_unreachable [] =
       (Inl (OtherError (str ''EndpointConnectionError'')), [GetExecutionRole])
   \<and> IamGetRole (str ''sagemaker_execution_role'') \<notin> set (snd (resolve_role world_sts_unreachable []))"
  by (simp add: world_sts_unreachable_def world_ok_def resolve_role_def
      try_except_ValueError_def call_def and_then_def str_def)

subsection \<open>C7: locating the summary file\<close>



subsection \<open>C8: the inference request\<close>

text \<open>
  C8. The payload of \<^verbatim>\<open>predict\<close> is one dictionary: \<^verbatim>\<open>messages\<close> first, then the entries of
  \<^verbatim>\<open>parameters\<close> (\<^verbatim>\<open>model\<close>, \<^verbatim>\<open>top_p\<close>, \<^verbatim>\<open>temperature\<close>, \<^verbatim>\<open>max_tokens\<close>, \<^verbatim>\<open>stop\<close>) at the same
  level. Every message is a role/content pair with a role out of system, user,
  assistant. The message list is passed as it is: whatever the list and the parameters
  (as long as these have no \<^verbatim>\<open>messages\<close> key of their own), the payload's \<^verbatim>\<open>messages\<close> entry
  is that list, and the payload is the first thing the cell sends.
\<close>

theorem request_payload_merges_parameters:
  "request_payload messages parameters = PDict
     [(str ''messages'', messages),
      (str ''model'', PStr (str ''meta-llama/Meta-Llama-3-70B-Instruct'')),
      (str ''top_p'', PFloat (Finite False 5404319552844595 (- 53))),
      (str ''temperature'', PFloat (Finite False 8106479329266893 (- 53))),
      (str ''max_tokens'', PInt 512),
      (str ''stop'', PList [PStr (str ''<|eot_id|>'')])]
   \<and> (\<exists>ms. messages = PList ms \<and> list_all chat_message ms)
   \<and> (map_of params (str ''messages'') = None \<longrightarrow>
        getitem_str (request_payload msgs params) (str ''messages'') = Inr msgs)
   \<and> (\<exists>r rest. cell_chat rt w msgs params tr =
        (r, tr @ Predict (request_payload msgs params) # rest))"
proof (intro conjI impI)
  show "request_payload messages parameters = PDict
     [(str ''messages'', messages),
      (str ''model'', PStr (str ''meta-llama/Meta-Llama-3-70B-Instruct'')),
      (str ''top_p'', PFloat (Finite False 5404319552844595 (- 53))),
      (str ''temperature'', PFloat (Finite False 8106479329266893 (- 53))),
      (str ''max_tokens'', PInt 512),
      (str ''stop'', PList [PStr (str ''<|eot_id|>'')])]"
    by (simp add: request_payload_def parameters_def dict_update_def str_def)
next
  show "\<exists>ms. messages = PList ms \<and> list_all chat_message ms"
    by (simp add: messages_def)
next
  assume "map_of params (str ''messages'') = None"
  then show "getitem_str (request_payload msgs params) (str ''messages'') = Inr msgs"
    by (simp add: request_payload_def map_of_dict_update_other)
next
  show "\<exists>r rest. cell_chat rt w msgs params tr =
        (r, tr @ Predict (request_payload msgs params) # rest)"
    by (simp add: cell_chat_def io_bind_def call_def io_lift_def py_print_def
        split: sum.splits)
qed

theorem request_payload_witness:
  "map_of parameters (str ''messages'') = None
   \<and> getitem_str (request_payload messages parameters) (str ''messages'') = Inr messages"
proof -
  have "map_of parameters (str ''messages'') = None"
    by (simp add: parameters_def str_def)
  then show ?thesis
    using request_payload_merges_parameters [where params = parameters and msgs = messages]
    by simp
qed

subsection \<open>C9: the notebook as committed\<close>

text \<open>
  C9. The committed configuration holds the placeholder, so the check fails: every run
  of the unmodified notebook ends in an exception and its trace has neither the model
  constructor nor \<^verbatim>\<open>deploy\<close>. When the cells before the check succeed, the exception is
  the \<^verbatim>\<open>AssertionError\<close> and the last effect is the print of the image URI.
\<close>

theorem committed_notebook_stops_at_token_check:
  "assert_token_set config = Inl (AssertionError (str ''Please set your Hugging Face Hub token''))
   \<and> (\<exists>e. fst (run_notebook rt w []) = Inl e)
   \<and> list_all (\<lambda>ev. \<not> deployment_call ev) (snd (run_notebook rt w []))
   \<and> (\<forall>role boto_region_name tr.
        io_bind cell_pip_install (\<lambda>_. cell_session rt w) [] = (Inr (role, boto_region_name), tr) \<longrightarrow>
        run_notebook rt w [] =
          (Inl (AssertionError (str ''Please set your Hugging Face Hub token'')),
           tr @ [Print (str ''llm image uri: '' @ llm_image boto_region_name)]))"
proof -
  have tok: "map_of config (str ''HUGGING_FACE_HUB_TOKEN'') = Some (PStr token_placeholder)"
    unfolding config_def by (rule config_token)
  have a: "assert_token_set config = Inl (AssertionError (str ''Please set your Hugging Face Hub token''))"
    by (simp add: assert_token_set_cases [OF tok])
  have b: "\<exists>e. fst (run_notebook rt w []) = Inl e"
    using run_cells_placeholder_raises [OF tok, of rt w]
    by (simp add: always_raises_def run_notebook_def)
  have c: "list_all (\<lambda>ev. \<not> deployment_call ev) (snd (run_notebook rt w []))"
    unfolding run_notebook_def by (rule emits_trace [OF run_cells_placeholder_emits [OF tok]])
  have d: "run_notebook rt w [] =
          (Inl (AssertionError (str ''Please set your Hugging Face Hub token'')),
           tr @ [Print (str ''llm image uri: '' @ llm_image boto_region_name)])"
    if "io_bind cell_pip_install (\<lambda>_. cell_session rt w) [] = (Inr (role, boto_region_name), tr)"
    for role boto_region_name tr
    using that
    by (auto simp add: run_notebook_def run_cells_def io_bind_def cell_image_def py_print_def
        io_ret_def cell_model_placeholder [OF tok] split: prod.splits sum.splits)
  from a b c d show ?thesis by blast
qed

theorem committed_notebook_witness:
  "\<forall>rt. run_notebook rt world_ok [] =
     (Inl (AssertionError (str ''Please set your Hugging Face Hub token'')),
      [Shell pip_install_command,
       NewSession None, DefaultBucket, GetExecutionRole,
       NewSession (Some (PStr (str ''sagemaker-us-east-1-123456789012''))),
       Print (str ''sagemaker role arn: arn:aws:iam::123456789012:role/notebook''),
       Print (str ''sagemaker session region: us-east-1''),
       Print (str ''llm image uri: 763104351884.dkr.ecr.us-east-1.amazonaws.com/huggingface-pytorch-tgi-inference:2.1-tgi2.0-gpu-py310-cu121-ubuntu22.04'')])"
proof
  fix rt
  have "io_bind cell_pip_install (\<lambda>_. cell_session rt world_ok) [] =
     (Inr (PStr (str ''arn:aws:iam::123456789012:role/notebook''), str ''us-east-1''),
      [Shell pip_install_command,
       NewSession None, DefaultBucket, GetExecutionRole,
       NewSession (Some (PStr (str ''sagemaker-us-east-1-123456789012''))),
       Print (str ''sagemaker role arn: arn:aws:iam::123456789012:role/notebook''),
       Print (str ''sagemaker session region: us-east-1'')])"
    by (simp add: cell_pip_install_def cell_session_def resolve_role_def
        try_except_ValueError_def io_bind_def call_def py_print_def io_ret_def world_ok_def str_def)
  with committed_notebook_stops_at_token_check [of rt world_ok]
  show "run_notebook rt world_ok [] =
     (Inl (AssertionError (str ''Please set your Hugging Face Hub token'')),
      [Shell pip_install_command,
       NewSession None, DefaultBucket, GetExecutionRole,
       NewSession (Some (PStr (str ''sagemaker-us-east-1-123456789012''))),
       Print (str ''sagemaker role arn: arn:aws:iam::123456789012:role/notebook''),
       Print (str ''sagemaker session region: us-east-1''),
       Print (str ''llm image uri: 763104351884.dkr.ecr.us-east-1.amazonaws.com/huggingface-pytorch-tgi-inference:2.1-tgi2.0-gpu-py310-cu121-ubuntu22.04'')])"
    by (simp add: llm_image_def str_def)
qed

subsection \<open>C10: the printed concurrency\<close>

text \<open>
  C10. Whatever the summary holds and whatever ran before (any benchmark command
  included), the first line the summary prints is the constant
  \<^verbatim>\<open>Concurrent requests: 25\<close>.
\<close>

theorem concurrency_line_is_constant:
  "(\<exists>r rest. print_summary rt data tr = (r, tr @ Print (str ''Concurrent requests: 25'') # rest))
   \<and> (glob_glob w summary_pattern = path # others \<and> open_json_load w path = Inr data \<longrightarrow>
       (\<exists>r rest. cell_summary rt w tr =
          (r, tr @ [GlobCall summary_pattern, OpenFile path,
                    Print (str ''Concurrent requests: 25'')] @ rest)))"
proof (intro conjI impI)
  show "\<exists>r rest. print_summary rt data tr = (r, tr @ Print (str ''Concurrent requests: 25'') # rest)"
    by (rule print_summary_first_line)
next
  assume a: "glob_glob w summary_pattern = path # others \<and> open_json_load w path = Inr data"
  from print_summary_first_line [of rt data "tr @ [GlobCall summary_pattern, OpenFile path]"]
  obtain r rest where "print_summary rt data (tr @ [GlobCall summary_pattern, OpenFile path]) =
      (r, (tr @ [GlobCall summary_pattern, OpenFile path]) @ Print (str ''Concurrent requests: 25'') # rest)"
    by blast
  with a have "cell_summary rt w tr =
      (r, tr @ [GlobCall summary_pattern, OpenFile path, Print (str ''Concurrent requests: 25'')] @ rest)"
    by (simp add: cell_summary_cases)
  then show "\<exists>r rest. cell_summary rt w tr =
          (r, tr @ [GlobCall summary_pattern, OpenFile path,
                    Print (str ''Concurrent requests: 25'')] @ rest)"
    by blast
qed

theorem concurrency_line_witness:
  "glob_glob world_ok summary_pattern =
       [str ''results/llama3_550_150_summary.json'', str ''results/old_summary.json'']
   \<and> open_json_load world_ok (str ''results/llama3_550_150_summary.json'') = Inr summary_data
   \<and> (\<forall>rt. \<exists>r rest. cell_summary rt world_ok benchmark_trace_50 =
          (r, benchmark_trace_50 @
              [GlobCall summary_pattern, OpenFile (str ''results/llama3_550_150_summary.json''),
               Print (str ''Concurrent requests: 25'')] @ rest))"
proof -
  have 1: "glob_glob world_ok summary_pattern =
       [str ''results/llama3_550_150_summary.json'', str ''results/old_summary.json'']"
    by (simp add: world_ok_def)
  have 2: "open_json_load world_ok (str ''results/llama3_550_150_summary.json'') = Inr summary_data"
    by (simp add: world_ok_def)
  from 1 2 show ?thesis
    using concurrency_line_is_constant [where w = world_ok and data = summary_data
        and tr = benchmark_trace_50
        and path = "str ''results/llama3_550_150_summary.json''"
        and others = "[str ''results/old_summary.json'']"]
    by simp
qed

end
